theory Spec2Isabelle
  imports Main "HOL-Library.Char_ord" "HOL-Library.List_Lexorder" "HOL-Library.Multiset"
begin

section \<open>Python strings\<close>

text \<open>
  A Python \<^verbatim>\<open>str\<close> is modelled as a \<^typ>\<open>string\<close> whose characters are the code
  points below 256; \<^verbatim>\<open>bytes\<close> is a list of the same 8-bit characters. Comparison of
  strings (\<^verbatim>\<open><\<close>, \<^verbatim>\<open>></\<close>) is lexicographic on code points, which is the order
  that \<^theory_text>\<open>List_Lexorder\<close> and \<^theory_text>\<open>Char_ord\<close> give to \<^typ>\<open>string\<close>.
\<close>

type_synonym bytes = "char list"

text \<open>\<^verbatim>\<open>if s\<close> / \<^verbatim>\<open>if not s\<close> on a value that is \<^verbatim>\<open>None\<close> or a string.\<close>

definition truthy :: "string option \<Rightarrow> bool" where
  "truthy s = (case s of None \<Rightarrow> False | Some t \<Rightarrow> t \<noteq> [])"

text \<open>\<^verbatim>\<open>s.startswith(p)\<close>\<close>

definition startswith :: "string \<Rightarrow> string \<Rightarrow> bool" where
  "startswith s p = (take (length p) s = p)"

text \<open>\<^verbatim>\<open>c.isspace()\<close> for the code points below 256: TAB to CR, FS to US, space, NEL, NBSP.\<close>

definition py_isspace :: "char \<Rightarrow> bool" where
  "py_isspace c = ((of_char c :: nat) \<in> {9, 10, 11, 12, 13, 28, 29, 30, 31, 32, 133, 160})"

text \<open>\<^verbatim>\<open>s.strip()\<close>: leading and trailing whitespace removed.\<close>

definition strip :: "string \<Rightarrow> string" where
  "strip s = rev (dropWhile py_isspace (rev (dropWhile py_isspace s)))"

text \<open>
  \<^verbatim>\<open>s.split(sep)\<close> for a one-character separator: the pieces between the
  separators, empty pieces included; the empty string gives one empty piece.
\<close>

fun split :: "char \<Rightarrow> string \<Rightarrow> string list" where
  "split sep [] = [] # []"
| "split sep (c # cs) =
     (if c = sep then [] # split sep cs
      else (case split sep cs of [] \<Rightarrow> [c] # [] | t # ts \<Rightarrow> (c # t) # ts))"

text \<open>\<^verbatim>\<open>c.lower()\<close> for the code points below 256.\<close>

definition lower_char :: "char \<Rightarrow> char" where
  "lower_char c =
     (let n = (of_char c :: nat)
      in if (65 \<le> n \<and> n \<le> 90) \<or> (192 \<le> n \<and> n \<le> 222 \<and> n \<noteq> 215)
         then char_of (n + 32) else c)"

definition lower :: "string \<Rightarrow> string" where
  "lower s = map lower_char s"

text \<open>\<^verbatim>\<open>s.rsplit('.', 1)[1]\<close>, used only when \<^verbatim>\<open>'.' in s\<close>: the text after the last dot.\<close>

definition after_last_dot :: "string \<Rightarrow> string" where
  "after_last_dot s = rev (takeWhile (\<lambda>c. c \<noteq> CHR ''.'') (rev s))"

text \<open>
  \<^verbatim>\<open>xs.sort(key=f, reverse=True)\<close>: CPython reverses the list, sorts it stably in
  ascending key order and reverses it again, so equal keys keep their order.
\<close>

definition sort_reverse :: "('a \<Rightarrow> 'k::linorder) \<Rightarrow> 'a list \<Rightarrow> 'a list" where
  "sort_reverse f xs = rev (sort_key f (rev xs))"

section \<open>Tags\<close>

text \<open>
  Both variants parse the tags form field with the same expression
  (\<^verbatim>\<open>app.py\<close> line 86, \<^verbatim>\<open>server.py\<close> line 100):
  \<^verbatim>\<open>[tag.strip() for tag in tags.split(',') if tag.strip()] if tags else []\<close>
\<close>

definition parse_tags :: "string \<Rightarrow> string list" where
  "parse_tags tgs =
     (if tgs \<noteq> [] then map strip (filter (\<lambda>tag. strip tag \<noteq> []) (split CHR '','' tgs))
      else [])"

text \<open>
  The list filters use the comprehension without the guard
  (\<^verbatim>\<open>app.py\<close> line 172, \<^verbatim>\<open>server.py\<close> line 167).
\<close>

definition search_tags_of :: "string \<Rightarrow> string list" where
  "search_tags_of tgs = map strip (filter (\<lambda>t. strip t \<noteq> []) (split CHR '','' tgs))"

text \<open>
  The specification's wording of the same list: split on commas, trim each token, drop
  the empty ones, keep the order of the rest.
\<close>

definition spec_tags :: "string \<Rightarrow> string list" where
  "spec_tags tgs = filter (\<lambda>t. t \<noteq> []) (map strip (split CHR '','' tgs))"

section \<open>JSON values and responses\<close>

text \<open>
  \<open>Dec n\<close> is a number that boto3 returns as a \<^verbatim>\<open>Decimal\<close>: \<^verbatim>\<open>jsonify\<close> sends it
  as the JSON string of its digits, where \<open>Num n\<close> is sent as a JSON number.
\<close>

datatype val = Str string | Num nat | Dec nat | Tags "string list" | Null | Flag bool

type_synonym json = "string \<rightharpoonup> val"

text \<open>
  A response body is a JSON object, a JSON array of objects, or the file that
  \<^verbatim>\<open>send_file\<close> streams: its bytes, \<^verbatim>\<open>mimetype\<close>, \<^verbatim>\<open>download_name\<close> and
  \<^verbatim>\<open>as_attachment\<close>.
\<close>

datatype body =
    Json json
  | JsonList "json list"
  | SendFile bytes string string bool

type_synonym response = "body \<times> nat"

definition error_json :: "string \<Rightarrow> body" where
  "error_json msg = Json (map_of [(''error'', Str msg)])"

definition opt_str :: "string option \<Rightarrow> val" where
  "opt_str s = (case s of None \<Rightarrow> Null | Some t \<Rightarrow> Str t)"

section \<open>The blocking-store variant: \<^verbatim>\<open>aws_services.py\<close>\<close>

text \<open>
  An item of the DynamoDB table. \<^verbatim>\<open>upload_image\<close> writes the first nine
  attributes; the image processor adds the last four, which are absent before.
\<close>

record item =
  image_id :: string
  filename :: string
  s3_key :: string
  file_size :: nat
  file_type :: string
  uploader :: string
  tags :: "string list"
  description :: "string option"
  upload_date :: string
  width :: "nat option"
  height :: "nat option"
  thumbnail_key :: "string option"
  processed :: "bool option"

text \<open>
  What a call of a boto3 client does: it returns, it raises the \<^verbatim>\<open>ClientError\<close>
  that the helpers of \<^verbatim>\<open>AWSServices\<close> catch, or it raises anything else (the
  clients are \<^verbatim>\<open>None\<close> when \<^verbatim>\<open>_initialize_clients\<close> failed, the network is
  down), which the helpers let through.
\<close>

datatype outcome = Done | ClientError | Unexpected

datatype exn = Exception

datatype call =
    S3_upload string
  | S3_download string
  | S3_delete string
  | Db_put string
  | Db_get string
  | Db_scan
  | Db_delete string
  | Lambda_invoke string

text \<open>
  The image processor runs outside the service. Its own store calls succeed or fail, and
  \<^verbatim>\<open>lam_image_open\<close> stands for the imaging library: width, height and the bytes of
  the thumbnail, or \<^verbatim>\<open>None\<close> when the bytes are not an image.
\<close>

record lambda_env =
  lam_get_object :: bool
  lam_image_open :: "bytes \<Rightarrow> (nat \<times> nat \<times> bytes) option"
  lam_put_object :: bool
  lam_update_item :: bool

text \<open>
  The environment of one request: the value of \<^verbatim>\<open>uuid.uuid4()\<close>, the clock, and
  the outcome of each store call the request can make (a handler calls each helper at
  most once).
\<close>

record env =
  uuid4 :: string
  utcnow :: string
  s3_upload :: outcome
  s3_download :: outcome
  s3_delete :: outcome
  db_put :: outcome
  db_get :: outcome
  db_scan :: outcome
  db_delete :: outcome
  lambda_invoke :: outcome
  lambda_run :: lambda_env

text \<open>
  The two stores and the log of the calls the service made to them, oldest first, each
  with its outcome. The bucket maps a key to the object's bytes and content type; the
  table lists its items in scan order, one per id.
\<close>

record world =
  bucket :: "string \<rightharpoonup> bytes \<times> string"
  table :: "item list"
  calls :: "(call \<times> outcome) list"

definition logged :: "call \<Rightarrow> outcome \<Rightarrow> world \<Rightarrow> world" where
  "logged c r w = w\<lparr>calls := calls w @ [(c, r)]\<rparr>"

definition S3_BUCKET_NAME :: string where
  "S3_BUCKET_NAME = ''lumina-gallery-images''"

definition LAMBDA_FUNCTION_NAME :: string where
  "LAMBDA_FUNCTION_NAME = ''image-processor''"

subsection \<open>S3 operations\<close>

text \<open>
  A file object: its bytes, and whether it is closed. \<^verbatim>\<open>seek\<close> and \<^verbatim>\<open>tell\<close> raise
  \<^verbatim>\<open>ValueError\<close> on a closed file.
\<close>

record file_obj =
  fo_bytes :: bytes
  fo_closed :: bool

text \<open>\<^verbatim>\<open>f.seek(0)\<close>\<close>

definition seek_start :: "file_obj \<Rightarrow> exn + file_obj" where
  "seek_start f = (if fo_closed f then Inl Exception else Inr f)"

text \<open>\<^verbatim>\<open>f.seek(0, 2); f.tell()\<close>: the number of bytes of the file.\<close>

definition seek_end_tell :: "file_obj \<Rightarrow> exn + nat" where
  "seek_end_tell f = (if fo_closed f then Inl Exception else Inr (length (fo_bytes f)))"

text \<open>
  \<^verbatim>\<open>upload_fileobj\<close> stores the bytes under the key and closes the file object it was
  given; the helper returns the caller's file object in that state. After a failure the
  handler does not use the file again.
\<close>

definition upload_to_s3 ::
  "env \<Rightarrow> file_obj \<Rightarrow> string \<Rightarrow> string \<Rightarrow> world \<Rightarrow> (exn + bool) \<times> file_obj \<times> world" where
  "upload_to_s3 e f file_name content_type w =
     (let w' = logged (S3_upload file_name) (s3_upload e) w
      in case s3_upload e of
           Done \<Rightarrow> (Inr True, f\<lparr>fo_closed := True\<rparr>,
                    w'\<lparr>bucket := (bucket w')(file_name \<mapsto> (fo_bytes f, content_type))\<rparr>)
         | ClientError \<Rightarrow> (Inr False, f, w')
         | Unexpected \<Rightarrow> (Inl Exception, f, w'))"

text \<open>A key that is not in the bucket makes \<^verbatim>\<open>get_object\<close> raise a \<^verbatim>\<open>ClientError\<close>.\<close>

definition download_from_s3 ::
  "env \<Rightarrow> string \<Rightarrow> world \<Rightarrow> (exn + (bytes \<times> string) option) \<times> world" where
  "download_from_s3 e file_name w =
     (let w' = logged (S3_download file_name) (s3_download e) w
      in case s3_download e of
           Done \<Rightarrow> (Inr (bucket w' file_name), w')
         | ClientError \<Rightarrow> (Inr None, w')
         | Unexpected \<Rightarrow> (Inl Exception, w'))"

definition delete_from_s3 :: "env \<Rightarrow> string \<Rightarrow> world \<Rightarrow> (exn + bool) \<times> world" where
  "delete_from_s3 e file_name w =
     (let w' = logged (S3_delete file_name) (s3_delete e) w
      in case s3_delete e of
           Done \<Rightarrow> (Inr True, w'\<lparr>bucket := (bucket w')(file_name := None)\<rparr>)
         | ClientError \<Rightarrow> (Inr False, w')
         | Unexpected \<Rightarrow> (Inl Exception, w'))"

subsection \<open>DynamoDB operations\<close>

text \<open>\<^verbatim>\<open>Table.put_item\<close> replaces the item that has the same id, or adds the item.\<close>

fun put_row :: "item \<Rightarrow> item list \<Rightarrow> item list" where
  "put_row it [] = [it]"
| "put_row it (x # xs) = (if image_id x = image_id it then it # xs else x # put_row it xs)"

definition put_item :: "env \<Rightarrow> item \<Rightarrow> world \<Rightarrow> (exn + bool) \<times> world" where
  "put_item e it w =
     (let w' = logged (Db_put (image_id it)) (db_put e) w
      in case db_put e of
           Done \<Rightarrow> (Inr True, w'\<lparr>table := put_row it (table w')\<rparr>)
         | ClientError \<Rightarrow> (Inr False, w')
         | Unexpected \<Rightarrow> (Inl Exception, w'))"

definition get_item :: "env \<Rightarrow> string \<Rightarrow> world \<Rightarrow> (exn + item option) \<times> world" where
  "get_item e iid w =
     (let w' = logged (Db_get iid) (db_get e) w
      in case db_get e of
           Done \<Rightarrow> (Inr (find (\<lambda>x. image_id x = iid) (table w')), w')
         | ClientError \<Rightarrow> (Inr None, w')
         | Unexpected \<Rightarrow> (Inl Exception, w'))"

text \<open>\<^verbatim>\<open>list_images\<close> calls \<^verbatim>\<open>scan_items\<close> without a filter expression.\<close>

definition scan_items :: "env \<Rightarrow> world \<Rightarrow> (exn + item list) \<times> world" where
  "scan_items e w =
     (let w' = logged Db_scan (db_scan e) w
      in case db_scan e of
           Done \<Rightarrow> (Inr (table w'), w')
         | ClientError \<Rightarrow> (Inr [], w')
         | Unexpected \<Rightarrow> (Inl Exception, w'))"

definition delete_item :: "env \<Rightarrow> string \<Rightarrow> world \<Rightarrow> (exn + bool) \<times> world" where
  "delete_item e iid w =
     (let w' = logged (Db_delete iid) (db_delete e) w
      in case db_delete e of
           Done \<Rightarrow> (Inr True, w'\<lparr>table := filter (\<lambda>x. image_id x \<noteq> iid) (table w')\<rparr>)
         | ClientError \<Rightarrow> (Inr False, w')
         | Unexpected \<Rightarrow> (Inl Exception, w'))"

subsection \<open>The image processor: \<^verbatim>\<open>lambda_function.py\<close>\<close>

text \<open>
  \<^verbatim>\<open>update_item\<close> with \<^verbatim>\<open>SET width, height, thumbnail_key, processed\<close> on the
  item of the given id. (DynamoDB would create an item when none has the id;
  \<^verbatim>\<open>upload_image\<close> invokes the processor only after it has put the item.)
\<close>

definition update_row :: "string \<Rightarrow> nat \<Rightarrow> nat \<Rightarrow> string \<Rightarrow> item list \<Rightarrow> item list" where
  "update_row iid wd ht tk tbl =
     map (\<lambda>x. if image_id x = iid
               then x\<lparr>width := Some wd, height := Some ht, thumbnail_key := Some tk,
                      processed := Some True\<rparr>
               else x) tbl"

text \<open>
  Every exception inside the handler is caught and answered with status 500; what was
  written before it stays written.
\<close>

definition lambda_handler ::
  "lambda_env \<Rightarrow> string \<Rightarrow> string \<Rightarrow> string \<Rightarrow> world \<Rightarrow> nat \<times> world" where
  "lambda_handler le bkt key iid w =
     (if bkt = [] \<or> key = [] \<or> iid = [] then (400, w)
      else if \<not> lam_get_object le then (500, w)
      else case bucket w key of
             None \<Rightarrow> (500, w)
           | Some (image_data, content_type) \<Rightarrow>
               (case lam_image_open le image_data of
                  None \<Rightarrow> (500, w)
                | Some (wd, ht, thumbnail) \<Rightarrow>
                    let thumbnail_key = ''thumbnails/'' @ key
                    in if \<not> lam_put_object le then (500, w)
                       else let w1 = w\<lparr>bucket := (bucket w)(thumbnail_key \<mapsto>
                                                      (thumbnail, content_type))\<rparr>
                            in if \<not> lam_update_item le then (500, w1)
                               else (200, w1\<lparr>table := update_row iid wd ht thumbnail_key
                                                           (table w1)\<rparr>)))"

text \<open>
  \<^verbatim>\<open>invoke_lambda\<close> calls the function synchronously and returns its result, or
  \<^verbatim>\<open>None\<close> after a \<^verbatim>\<open>ClientError\<close>.
\<close>

definition invoke_lambda ::
  "env \<Rightarrow> string \<Rightarrow> string \<Rightarrow> string \<Rightarrow> string \<Rightarrow> world \<Rightarrow> (exn + nat option) \<times> world" where
  "invoke_lambda e function_name bkt key iid w =
     (let w' = logged (Lambda_invoke function_name) (lambda_invoke e) w
      in case lambda_invoke e of
           Done \<Rightarrow> (case lambda_handler (lambda_run e) bkt key iid w' of
                      (status, w'') \<Rightarrow> (Inr (Some status), w''))
         | ClientError \<Rightarrow> (Inr None, w')
         | Unexpected \<Rightarrow> (Inl Exception, w'))"

section \<open>The blocking-store variant: \<^verbatim>\<open>app.py\<close>\<close>

text \<open>
  Each handler is a \<^verbatim>\<open>try\<close> block whose \<^verbatim>\<open>except Exception\<close> answers
  \<^verbatim>\<open>Internal server error\<close> with status 500; what the stores hold by then stays.
\<close>

definition catch_all :: "(exn + response) \<times> world \<Rightarrow> response \<times> world" where
  "catch_all r =
     (case r of
        (Inl x, w) \<Rightarrow> ((error_json ''Internal server error'', 500), w)
      | (Inr resp, w) \<Rightarrow> (resp, w))"

definition image_url :: "string \<Rightarrow> string" where
  "image_url iid = ''/api/images/'' @ iid @ ''/file''"

text \<open>
  The dictionary that boto3 returns for an item: one entry for each stored attribute.
\<close>

definition item_dict :: "item \<Rightarrow> json" where
  "item_dict it =
     map_of
       ([(''id'', Str (image_id it)),
         (''filename'', Str (filename it)),
         (''s3_key'', Str (s3_key it)),
         (''file_size'', Dec (file_size it)),
         (''file_type'', Str (file_type it)),
         (''uploader'', Str (uploader it)),
         (''tags'', Tags (tags it)),
         (''description'', opt_str (description it)),
         (''upload_date'', Str (upload_date it))]
        @ (case width it of None \<Rightarrow> [] | Some n \<Rightarrow> [(''width'', Dec n)])
        @ (case height it of None \<Rightarrow> [] | Some n \<Rightarrow> [(''height'', Dec n)])
        @ (case thumbnail_key it of None \<Rightarrow> [] | Some k \<Rightarrow> [(''thumbnail_key'', Str k)])
        @ (case processed it of None \<Rightarrow> [] | Some b \<Rightarrow> [(''processed'', Flag b)]))"

subsection \<open>\<^verbatim>\<open>upload_image\<close>\<close>

text \<open>
  The multipart request: \<^verbatim>\<open>request.files.get('file')\<close> with its filename, declared
  content type and the bytes of its stream, which is open when the handler starts, and
  the three form fields, each absent or a string.
\<close>

record file_storage =
  fs_filename :: string
  fs_content_type :: "string option"
  fs_stream :: bytes

record upload_form =
  files_file :: "file_storage option"
  form_uploader :: "string option"
  form_tags :: "string option"
  form_description :: "string option"

text \<open>
  The storage key (lines 73 and 74): the id, a dot, and the lower-cased text after the
  last dot of the file name, or \<^verbatim>\<open>jpg\<close> when the name has no dot.
\<close>

definition key_for :: "string \<Rightarrow> string \<Rightarrow> string" where
  "key_for iid name =
     (let file_extension =
            (if CHR ''.'' \<in> set name then lower (after_last_dot name) else ''jpg'')
      in iid @ ''.'' @ file_extension)"

definition upload_image_try :: "env \<Rightarrow> upload_form \<Rightarrow> world \<Rightarrow> (exn + response) \<times> world" where
  "upload_image_try e req w =
     (case files_file req of
        None \<Rightarrow> (Inr (error_json ''No file provided'', 400), w)
      | Some file \<Rightarrow>
          if fs_filename file = [] then (Inr (error_json ''No file selected'', 400), w)
          else
            (case fs_content_type file of
               None \<Rightarrow> (Inr (error_json ''Only image files are allowed'', 400), w)
             | Some content_type \<Rightarrow>
                 if content_type = [] \<or> \<not> startswith content_type ''image/''
                 then (Inr (error_json ''Only image files are allowed'', 400), w)
                 else
                   (case form_uploader req of
                      None \<Rightarrow> (Inr (error_json ''Uploader name is required'', 400), w)
                    | Some uploader_name \<Rightarrow>
                        if uploader_name = []
                        then (Inr (error_json ''Uploader name is required'', 400), w)
                        else
                          let tgs = (case form_tags req of None \<Rightarrow> [] | Some t \<Rightarrow> t);
                              descr = form_description req;
                              iid = uuid4 e;
                              key = key_for iid (fs_filename file)
                          in
                            (case seek_start \<lparr>fo_bytes = fs_stream file, fo_closed = False\<rparr> of
                               Inl x \<Rightarrow> (Inl x, w)
                             | Inr f0 \<Rightarrow>
                            (case upload_to_s3 e f0 key content_type w of
                               (Inl x, f1, w1) \<Rightarrow> (Inl x, w1)
                             | (Inr uploaded, f1, w1) \<Rightarrow>
                                 if \<not> uploaded
                                 then (Inr (error_json ''Failed to upload image to S3'', 500), w1)
                                 else
                                  (case seek_end_tell f1 of
                                     Inl x \<Rightarrow> (Inl x, w1)
                                   | Inr nbytes \<Rightarrow>
                                   let tags_list = parse_tags tgs;
                                       date = utcnow e;
                                       metadata =
                                         \<lparr>image_id = iid, filename = fs_filename file,
                                          s3_key = key, file_size = nbytes,
                                          file_type = content_type, uploader = uploader_name,
                                          tags = tags_list, description = descr,
                                          upload_date = date, width = None, height = None,
                                          thumbnail_key = None, processed = None\<rparr>
                                   in
                                     (case put_item e metadata w1 of
                                        (Inl x, w2) \<Rightarrow> (Inl x, w2)
                                      | (Inr saved, w2) \<Rightarrow>
                                          if \<not> saved
                                          then
                                            (case delete_from_s3 e key w2 of
                                               (Inl x, w3) \<Rightarrow> (Inl x, w3)
                                             | (Inr _, w3) \<Rightarrow>
                                                 (Inr (error_json
                                                         ''Failed to save metadata to DynamoDB'',
                                                       500), w3))
                                          else
                                            let w3 = snd (invoke_lambda e LAMBDA_FUNCTION_NAME
                                                            S3_BUCKET_NAME key iid w2)
                                            in (Inr (Json (map_of
                                                      [(''id'', Str iid),
                                                       (''filename'', Str (fs_filename file)),
                                                       (''file_size'', Num nbytes),
                                                       (''file_type'', Str content_type),
                                                       (''uploader'', Str uploader_name),
                                                       (''tags'', Tags tags_list),
                                                       (''description'', opt_str descr),
                                                       (''upload_date'', Str date),
                                                       (''url'', Str (image_url iid))]),
                                                     201), w3))))))))"

definition upload_image :: "env \<Rightarrow> upload_form \<Rightarrow> world \<Rightarrow> response \<times> world" where
  "upload_image e req w = catch_all (upload_image_try e req w)"

subsection \<open>\<^verbatim>\<open>list_images\<close>\<close>

record list_args =
  arg_date_from :: "string option"
  arg_date_to :: "string option"
  arg_uploader :: "string option"
  arg_tags :: "string option"

text \<open>The filter loop: an item that reaches no \<^verbatim>\<open>continue\<close> is appended.\<close>

fun filtered_items :: "list_args \<Rightarrow> item list \<Rightarrow> item list" where
  "filtered_items a [] = []"
| "filtered_items a (it # items) =
     (if (case arg_date_from a of None \<Rightarrow> False
          | Some date_from \<Rightarrow> date_from \<noteq> [] \<and> upload_date it < date_from)
      then filtered_items a items
      else if (case arg_date_to a of None \<Rightarrow> False
               | Some date_to \<Rightarrow> date_to \<noteq> [] \<and> upload_date it > date_to)
      then filtered_items a items
      else if (case arg_uploader a of None \<Rightarrow> False
               | Some u \<Rightarrow> u \<noteq> [] \<and> uploader it \<noteq> u)
      then filtered_items a items
      else if (case arg_tags a of None \<Rightarrow> False
               | Some tgs \<Rightarrow> tgs \<noteq> [] \<and>
                   \<not> list_ex (\<lambda>tag. tag \<in> set (tags it)) (search_tags_of tgs))
      then filtered_items a items
      else it # filtered_items a items)"

definition with_url :: "item \<Rightarrow> json" where
  "with_url it = (item_dict it)(''url'' \<mapsto> Str (image_url (image_id it)))"

definition list_images_try :: "env \<Rightarrow> list_args \<Rightarrow> world \<Rightarrow> (exn + response) \<times> world" where
  "list_images_try e a w =
     (case scan_items e w of
        (Inl x, w1) \<Rightarrow> (Inl x, w1)
      | (Inr items, w1) \<Rightarrow>
          (Inr (JsonList (map with_url (sort_reverse upload_date (filtered_items a items))),
                200), w1))"

definition list_images :: "env \<Rightarrow> list_args \<Rightarrow> world \<Rightarrow> response \<times> world" where
  "list_images e a w = catch_all (list_images_try e a w)"

subsection \<open>\<^verbatim>\<open>get_image\<close>, \<^verbatim>\<open>download_image\<close>, \<^verbatim>\<open>delete_image\<close>\<close>

definition get_image_try :: "env \<Rightarrow> string \<Rightarrow> world \<Rightarrow> (exn + response) \<times> world" where
  "get_image_try e iid w =
     (case get_item e iid w of
        (Inl x, w1) \<Rightarrow> (Inl x, w1)
      | (Inr None, w1) \<Rightarrow> (Inr (error_json ''Image not found'', 404), w1)
      | (Inr (Some it), w1) \<Rightarrow>
          (Inr (Json ((item_dict it)(''url'' \<mapsto> Str (image_url iid))), 200), w1))"

definition get_image :: "env \<Rightarrow> string \<Rightarrow> world \<Rightarrow> response \<times> world" where
  "get_image e iid w = catch_all (get_image_try e iid w)"

text \<open>
  \<^verbatim>\<open>if not file_data\<close> holds for the \<^verbatim>\<open>None\<close> of a failed download and for
  empty bytes.
\<close>

definition download_image_try :: "env \<Rightarrow> string \<Rightarrow> world \<Rightarrow> (exn + response) \<times> world" where
  "download_image_try e iid w =
     (case get_item e iid w of
        (Inl x, w1) \<Rightarrow> (Inl x, w1)
      | (Inr None, w1) \<Rightarrow> (Inr (error_json ''Image not found'', 404), w1)
      | (Inr (Some it), w1) \<Rightarrow>
          (case download_from_s3 e (s3_key it) w1 of
             (Inl x, w2) \<Rightarrow> (Inl x, w2)
           | (Inr None, w2) \<Rightarrow> (Inr (error_json ''Failed to download image from S3'', 500), w2)
           | (Inr (Some (file_data, content_type)), w2) \<Rightarrow>
               if file_data = []
               then (Inr (error_json ''Failed to download image from S3'', 500), w2)
               else (Inr (SendFile file_data content_type (filename it) False, 200), w2)))"

definition download_image :: "env \<Rightarrow> string \<Rightarrow> world \<Rightarrow> response \<times> world" where
  "download_image e iid w = catch_all (download_image_try e iid w)"

definition delete_image_try :: "env \<Rightarrow> string \<Rightarrow> world \<Rightarrow> (exn + response) \<times> world" where
  "delete_image_try e iid w =
     (case get_item e iid w of
        (Inl x, w1) \<Rightarrow> (Inl x, w1)
      | (Inr None, w1) \<Rightarrow> (Inr (error_json ''Image not found'', 404), w1)
      | (Inr (Some it), w1) \<Rightarrow>
          (case delete_from_s3 e (s3_key it) w1 of
             (Inl x, w2) \<Rightarrow> (Inl x, w2)
           | (Inr _, w2) \<Rightarrow>
               (case delete_item e iid w2 of
                  (Inl x, w3) \<Rightarrow> (Inl x, w3)
                | (Inr deleted, w3) \<Rightarrow>
                    if \<not> deleted
                    then (Inr (error_json ''Failed to delete image metadata'', 500), w3)
                    else (Inr (Json (map_of [(''message'', Str ''Image deleted successfully''),
                                             (''id'', Str iid)]), 200), w3))))"

definition delete_image :: "env \<Rightarrow> string \<Rightarrow> world \<Rightarrow> response \<times> world" where
  "delete_image e iid w = catch_all (delete_image_try e iid w)"

section \<open>The document-store variant: \<^verbatim>\<open>server.py\<close>\<close>

text \<open>
  A document of the collection \<^verbatim>\<open>db.images\<close>: the dump of \<^verbatim>\<open>ImageMetadata\<close>
  with the date as an ISO string, and the path of the saved file.
\<close>

record image_doc =
  doc_id :: string
  doc_filename :: string
  doc_file_size :: nat
  doc_file_type :: string
  doc_uploader :: string
  doc_tags :: "string list"
  doc_description :: "string option"
  doc_upload_date :: string
  doc_file_path :: string

text \<open>The response model \<^verbatim>\<open>ImageResponse\<close>.\<close>

record image_response =
  r_id :: string
  r_filename :: string
  r_file_size :: nat
  r_file_type :: string
  r_uploader :: string
  r_tags :: "string list"
  r_description :: "string option"
  r_upload_date :: string
  r_url :: string

text \<open>The JSON object the framework sends for an \<^verbatim>\<open>ImageResponse\<close>: its fields.\<close>

definition response_json :: "image_response \<Rightarrow> json" where
  "response_json r =
     map_of
       [(''id'', Str (r_id r)),
        (''filename'', Str (r_filename r)),
        (''file_size'', Num (r_file_size r)),
        (''file_type'', Str (r_file_type r)),
        (''uploader'', Str (r_uploader r)),
        (''tags'', Tags (r_tags r)),
        (''description'', opt_str (r_description r)),
        (''upload_date'', Str (r_upload_date r)),
        (''url'', Str (r_url r))]"

text \<open>
  A request ends with the value the handler returns, with the
  \<^verbatim>\<open>HTTPException(status_code, detail)\<close> it raises, with the framework's answer 422
  to a request that lacks a required parameter of the handler
  (\<^verbatim>\<open>RequestValidationError\<close>, raised before the handler is called), or with an
  exception of the database driver that nothing catches (answered with status 500).
\<close>

datatype http_error = HTTPException nat string | RequestValidationError | Unhandled

text \<open>
  The environment of one request: the directory \<^verbatim>\<open>UPLOADS_DIR\<close>, the two values of
  \<^verbatim>\<open>uuid.uuid4()\<close> that an upload draws (file name, then id), the clock, whether
  writing or unlinking a file raises (with the text of the exception), whether a
  database call raises, whether another request deletes the document between the
  \<^verbatim>\<open>find_one\<close> and the \<^verbatim>\<open>delete_one\<close> of a delete, and the two library functions
  \<^verbatim>\<open>datetime.fromisoformat(s).isoformat()\<close> (\<^verbatim>\<open>None\<close> for \<^verbatim>\<open>ValueError\<close>) and
  \<^verbatim>\<open>mimetypes.guess_type(p)[0]\<close>.
\<close>

record server_env =
  uploads_dir :: string
  uuid4_file :: string
  uuid4_id :: string
  now_iso :: string
  write_error :: "string option"
  unlink_raises :: bool
  insert_one_raises :: bool
  find_raises :: bool
  delete_one_raises :: bool
  deleted_elsewhere :: bool
  fromisoformat :: "string \<Rightarrow> string option"
  guess_type :: "string \<Rightarrow> string option"

text \<open>The files on disk, by path, and the collection in insertion order.\<close>

record server_state =
  disk :: "string \<rightharpoonup> bytes"
  images :: "image_doc list"

text \<open>
  \<^verbatim>\<open>Path(p).name\<close>: the last component of the path, where empty components and the
  components \<^verbatim>\<open>.\<close> do not count; empty when there is none.
\<close>

definition path_name :: "string \<Rightarrow> string" where
  "path_name p =
     (case filter (\<lambda>c. c \<noteq> [] \<and> c \<noteq> ''.'') (split CHR ''/'' p) of
        [] \<Rightarrow> []
      | c # cs \<Rightarrow> last (c # cs))"

text \<open>
  \<^verbatim>\<open>Path(p).suffix\<close>: in the name, the text from the last dot on, unless that dot is
  the first or the last character of the name.
\<close>

definition path_suffix :: "string \<Rightarrow> string" where
  "path_suffix p =
     (let name = path_name p;
          ext = after_last_dot name
      in if CHR ''.'' \<in> set name \<and> ext \<noteq> [] \<and> length ext + 1 < length name
         then CHR ''.'' # ext else [])"

subsection \<open>The queries sent to the collection\<close>

text \<open>
  The filter document that \<^verbatim>\<open>list_images\<close> builds: an optional range on
  \<^verbatim>\<open>upload_date\<close> (\<^verbatim>\<open>$gte\<close>, \<^verbatim>\<open>$lte\<close>), an optional value of \<^verbatim>\<open>uploader\<close>, an
  optional \<^verbatim>\<open>$in\<close> list for \<^verbatim>\<open>tags\<close>.
\<close>

record query =
  q_upload_date :: "(string option \<times> string option) option"
  q_uploader :: "string option"
  q_tags_in :: "string list option"

text \<open>
  MongoDB's matching of such a filter: every present condition holds; strings compare
  by code point; \<^verbatim>\<open>$in\<close> on an array field holds when an element of the array is in
  the list.
\<close>

definition matches :: "query \<Rightarrow> image_doc \<Rightarrow> bool" where
  "matches q d =
     ((case q_upload_date q of
         None \<Rightarrow> True
       | Some (gte, lte) \<Rightarrow>
           (case gte of None \<Rightarrow> True | Some lo \<Rightarrow> lo \<le> doc_upload_date d) \<and>
           (case lte of None \<Rightarrow> True | Some hi \<Rightarrow> doc_upload_date d \<le> hi)) \<and>
      (case q_uploader q of None \<Rightarrow> True | Some u \<Rightarrow> doc_uploader d = u) \<and>
      (case q_tags_in q of None \<Rightarrow> True
       | Some ts \<Rightarrow> list_ex (\<lambda>t. t \<in> set ts) (doc_tags d)))"

text \<open>\<^verbatim>\<open>find(query).sort("upload_date", -1).to_list(n)\<close>\<close>

definition find_sorted :: "query \<Rightarrow> nat \<Rightarrow> image_doc list \<Rightarrow> image_doc list" where
  "find_sorted q n docs = take n (sort_reverse doc_upload_date (filter (matches q) docs))"

text \<open>\<^verbatim>\<open>find_one({"id": image_id})\<close> and \<^verbatim>\<open>delete_one({"id": image_id})\<close>\<close>

definition find_one :: "string \<Rightarrow> image_doc list \<Rightarrow> image_doc option" where
  "find_one iid docs = find (\<lambda>d. doc_id d = iid) docs"


subsection \<open>The handlers\<close>

text \<open>
  The endpoint \<^verbatim>\<open>upload_image\<close>. Its signature declares \<^verbatim>\<open>file\<close> and
  \<^verbatim>\<open>uploader\<close> as required (\<^verbatim>\<open>File(...)\<close>, \<^verbatim>\<open>Form(...)\<close>), \<^verbatim>\<open>tags\<close> with the
  default \<^verbatim>\<open>""\<close> and \<^verbatim>\<open>description\<close> with the default \<^verbatim>\<open>None\<close>. The framework
  answers 422 before the body runs when the file part is absent or when the uploader is
  absent or the empty string, and it gives an optional form field that is the empty
  string its default.
\<close>

definition server_upload_image ::
  "server_env \<Rightarrow> upload_form \<Rightarrow> server_state
     \<Rightarrow> (http_error + image_response) \<times> server_state" where
  "server_upload_image e req st =
     (case files_file req of
        None \<Rightarrow> (Inl RequestValidationError, st)
      | Some file \<Rightarrow>
     (case form_uploader req of
        None \<Rightarrow> (Inl RequestValidationError, st)
      | Some uploader_name \<Rightarrow>
     if uploader_name = [] then (Inl RequestValidationError, st)
     else
     let tgs = (case form_tags req of None \<Rightarrow> [] | Some t \<Rightarrow> t);
         descr = (case form_description req of
                    None \<Rightarrow> None
                  | Some d \<Rightarrow> if d = [] then None else Some d)
     in
     (case fs_content_type file of
        None \<Rightarrow> (Inl (HTTPException 400 ''Only image files are allowed''), st)
      | Some content_type \<Rightarrow>
          if content_type = [] \<or> \<not> startswith content_type ''image/''
          then (Inl (HTTPException 400 ''Only image files are allowed''), st)
          else
            let file_extension = path_suffix (fs_filename file);
                unique_filename = uuid4_file e @ file_extension;
                file_path = uploads_dir e @ ''/'' @ unique_filename
            in
              (case write_error e of
                 Some msg \<Rightarrow> (Inl (HTTPException 500 (''Failed to save file: '' @ msg)), st)
               | None \<Rightarrow>
                   let st1 = st\<lparr>disk := (disk st)(file_path \<mapsto> fs_stream file)\<rparr>;
                       size = length (fs_stream file);
                       tags_list = parse_tags tgs;
                       doc = \<lparr>doc_id = uuid4_id e, doc_filename = fs_filename file,
                              doc_file_size = size, doc_file_type = content_type,
                              doc_uploader = uploader_name, doc_tags = tags_list,
                              doc_description = descr, doc_upload_date = now_iso e,
                              doc_file_path = file_path\<rparr>
                   in
                     if insert_one_raises e then (Inl Unhandled, st1)
                     else
                       (Inr \<lparr>r_id = doc_id doc, r_filename = doc_filename doc,
                             r_file_size = doc_file_size doc, r_file_type = doc_file_type doc,
                             r_uploader = doc_uploader doc, r_tags = doc_tags doc,
                             r_description = doc_description doc,
                             r_upload_date = doc_upload_date doc,
                             r_url = image_url (doc_id doc)\<rparr>,
                        st1\<lparr>images := images st1 @ [doc]\<rparr>)))))"

definition to_response :: "image_doc \<Rightarrow> image_response" where
  "to_response img =
     \<lparr>r_id = doc_id img, r_filename = doc_filename img, r_file_size = doc_file_size img,
      r_file_type = doc_file_type img, r_uploader = doc_uploader img, r_tags = doc_tags img,
      r_description = doc_description img, r_upload_date = doc_upload_date img,
      r_url = image_url (doc_id img)\<rparr>"

definition server_list_images ::
  "server_env \<Rightarrow> list_args \<Rightarrow> server_state \<Rightarrow> http_error + image_response list" where
  "server_list_images e a st =
     (let date_from = arg_date_from a; date_to = arg_date_to a
      in
        case (if truthy date_from \<or> truthy date_to
              then
                (case (case date_from of
                         None \<Rightarrow> Inr None
                       | Some s \<Rightarrow>
                           if s = [] then Inr None
                           else (case fromisoformat e s of
                                   None \<Rightarrow> Inl (HTTPException 400
                                                  ''Invalid date_from format. Use ISO format.'')
                                 | Some parsed \<Rightarrow> Inr (Some parsed))) of
                   Inl err \<Rightarrow> Inl err
                 | Inr gte \<Rightarrow>
                     (case (case date_to of
                              None \<Rightarrow> Inr None
                            | Some s \<Rightarrow>
                                if s = [] then Inr None
                                else (case fromisoformat e s of
                                        None \<Rightarrow> Inl (HTTPException 400
                                                  ''Invalid date_to format. Use ISO format.'')
                                      | Some parsed \<Rightarrow> Inr (Some parsed))) of
                        Inl err \<Rightarrow> Inl err
                      | Inr lte \<Rightarrow> Inr (Some (gte, lte))))
              else Inr None) of
          Inl err \<Rightarrow> Inl err
        | Inr date_query \<Rightarrow>
            let q = \<lparr>q_upload_date = date_query,
                    q_uploader = (if truthy (arg_uploader a) then arg_uploader a else None),
                    q_tags_in = (case arg_tags a of
                                   None \<Rightarrow> None
                                 | Some tgs \<Rightarrow>
                                     if tgs = [] then None else Some (search_tags_of tgs))\<rparr>
            in if find_raises e then Inl Unhandled
               else Inr (map to_response (find_sorted q 1000 (images st))))"

definition server_get_image ::
  "server_env \<Rightarrow> string \<Rightarrow> server_state \<Rightarrow> http_error + image_response" where
  "server_get_image e iid st =
     (if find_raises e then Inl Unhandled
      else case find_one iid (images st) of
             None \<Rightarrow> Inl (HTTPException 404 ''Image not found'')
           | Some img \<Rightarrow> Inr (to_response img))"

text \<open>
  \<^verbatim>\<open>FileResponse(path, media_type, filename)\<close>: the model keeps the bytes at the path,
  the media type and the file name.
\<close>

datatype file_response = FileResponse bytes string string

definition server_download_image ::
  "server_env \<Rightarrow> string \<Rightarrow> server_state \<Rightarrow> http_error + file_response" where
  "server_download_image e iid st =
     (if find_raises e then Inl Unhandled
      else case find_one iid (images st) of
             None \<Rightarrow> Inl (HTTPException 404 ''Image not found'')
           | Some img \<Rightarrow>
               (case disk st (doc_file_path img) of
                  None \<Rightarrow> Inl (HTTPException 404 ''Image file not found on disk'')
                | Some content \<Rightarrow>
                    let media_type =
                          (case guess_type e (doc_file_path img) of
                             None \<Rightarrow> ''application/octet-stream''
                           | Some t \<Rightarrow> if t = [] then ''application/octet-stream'' else t)
                    in Inr (FileResponse content media_type (doc_filename img))))"


section \<open>Vocabulary of the properties\<close>

text \<open>The three checks of the upload validation, in the words of the specification.\<close>

definition has_file :: "upload_form \<Rightarrow> bool" where
  "has_file req = (case files_file req of None \<Rightarrow> False | Some f \<Rightarrow> fs_filename f \<noteq> [])"

definition has_image_type :: "upload_form \<Rightarrow> bool" where
  "has_image_type req =
     (case files_file req of
        None \<Rightarrow> False
      | Some f \<Rightarrow>
          (case fs_content_type f of None \<Rightarrow> False | Some ct \<Rightarrow> startswith ct ''image/''))"

definition has_uploader :: "upload_form \<Rightarrow> bool" where
  "has_uploader req = (case form_uploader req of None \<Rightarrow> False | Some u \<Rightarrow> u \<noteq> [])"

definition valid_upload :: "upload_form \<Rightarrow> bool" where
  "valid_upload req = (has_file req \<and> has_image_type req \<and> has_uploader req)"

subsection \<open>Sample inputs\<close>

definition lambda_ok :: lambda_env where
  "lambda_ok =
     \<lparr>lam_get_object = True, lam_image_open = (\<lambda>b. Some (4, 3, ''thumb'')),
      lam_put_object = True, lam_update_item = True\<rparr>"

definition env_ok :: env where
  "env_ok =
     \<lparr>uuid4 = ''id1'', utcnow = ''2025-01-02T03:04:05+00:00'',
      s3_upload = Done, s3_download = Done, s3_delete = Done, db_put = Done, db_get = Done,
      db_scan = Done, db_delete = Done, lambda_invoke = Done, lambda_run = lambda_ok\<rparr>"

definition empty_world :: world where
  "empty_world = \<lparr>bucket = Map.empty, table = [], calls = []\<rparr>"

definition cat_file :: file_storage where
  "cat_file =
     \<lparr>fs_filename = ''cat.PNG'', fs_content_type = Some ''image/png'', fs_stream = ''abc''\<rparr>"

definition cat_form :: upload_form where
  "cat_form =
     \<lparr>files_file = Some cat_file, form_uploader = Some ''U'',
      form_tags = Some ''a, b , ,c'', form_description = Some ''d''\<rparr>"

definition server_env_ok :: server_env where
  "server_env_ok =
     \<lparr>uploads_dir = ''uploads'', uuid4_file = ''f1'', uuid4_id = ''id1'',
      now_iso = ''2025-01-02T03:04:05+00:00'', write_error = None, unlink_raises = False,
      insert_one_raises = False, find_raises = False, delete_one_raises = False,
      deleted_elsewhere = False,
      fromisoformat = (\<lambda>s. if length s = 10 then Some (s @ ''T00:00:00'') else None),
      guess_type = (\<lambda>p. if lower (path_suffix p) = ''.png'' then Some ''image/png''
                         else None)\<rparr>"

definition empty_server :: server_state where
  "empty_server = \<lparr>disk = Map.empty, images = []\<rparr>"

definition no_filters :: list_args where
  "no_filters =
     \<lparr>arg_date_from = None, arg_date_to = None, arg_uploader = None, arg_tags = None\<rparr>"

text \<open>The item and the object that the sample upload leaves, before the processor runs.\<close>

definition cat_item :: item where
  "cat_item =
     \<lparr>image_id = ''id1'', filename = ''cat.PNG'', s3_key = ''id1.png'', file_size = 3,
      file_type = ''image/png'', uploader = ''U'', tags = [''a'', ''b'', ''c''],
      description = Some ''d'', upload_date = ''2025-01-02T03:04:05+00:00'', width = None,
      height = None, thumbnail_key = None, processed = None\<rparr>"

definition cat_world :: world where
  "cat_world =
     \<lparr>bucket = [''id1.png'' \<mapsto> (''abc'', ''image/png'')], table = [cat_item], calls = []\<rparr>"

definition cat_doc :: image_doc where
  "cat_doc =
     \<lparr>doc_id = ''id1'', doc_filename = ''cat.PNG'', doc_file_size = 3,
      doc_file_type = ''image/png'', doc_uploader = ''U'', doc_tags = [''a'', ''b'', ''c''],
      doc_description = Some ''d'', doc_upload_date = ''2025-01-02T03:04:05+00:00'',
      doc_file_path = ''uploads/f1.PNG''\<rparr>"

definition cat_server :: server_state where
  "cat_server = \<lparr>disk = [''uploads/f1.PNG'' \<mapsto> ''abc''], images = [cat_doc]\<rparr>"

subsection \<open>Listing\<close>

text \<open>
  The filter of the specification for the blocking-store variant. A filter counts as
  supplied when the parameter is present and not empty; the date bounds are inclusive
  and compare the strings; the uploader is compared for equality; the tags filter asks
  for a common tag with the tokens of the parameter.
\<close>

definition satisfies :: "list_args \<Rightarrow> item \<Rightarrow> bool" where
  "satisfies a it =
     ((case arg_date_from a of None \<Rightarrow> True | Some d \<Rightarrow> d = [] \<or> d \<le> upload_date it) \<and>
      (case arg_date_to a of None \<Rightarrow> True | Some d \<Rightarrow> d = [] \<or> upload_date it \<le> d) \<and>
      (case arg_uploader a of None \<Rightarrow> True | Some u \<Rightarrow> u = [] \<or> uploader it = u) \<and>
      (case arg_tags a of None \<Rightarrow> True
       | Some t \<Rightarrow> t = [] \<or> set (tags it) \<inter> set (spec_tags t) \<noteq> {}))"

text \<open>
  The same for the document-store variant, where a date bound is the parsed and
  re-printed parameter.
\<close>

definition server_satisfies :: "server_env \<Rightarrow> list_args \<Rightarrow> image_doc \<Rightarrow> bool" where
  "server_satisfies e a d =
     ((case arg_date_from a of None \<Rightarrow> True
       | Some s \<Rightarrow> s = [] \<or>
           (case fromisoformat e s of None \<Rightarrow> False | Some lo \<Rightarrow> lo \<le> doc_upload_date d)) \<and>
      (case arg_date_to a of None \<Rightarrow> True
       | Some s \<Rightarrow> s = [] \<or>
           (case fromisoformat e s of None \<Rightarrow> False | Some hi \<Rightarrow> doc_upload_date d \<le> hi)) \<and>
      (case arg_uploader a of None \<Rightarrow> True | Some u \<Rightarrow> u = [] \<or> doc_uploader d = u) \<and>
      (case arg_tags a of None \<Rightarrow> True
       | Some t \<Rightarrow> t = [] \<or> set (doc_tags d) \<inter> set (spec_tags t) \<noteq> {}))"

text \<open>
  A date parameter is rejected when it is supplied, not empty, and
  \<^verbatim>\<open>datetime.fromisoformat\<close> raises \<^verbatim>\<open>ValueError\<close> for it. This is the parser of the
  code, not the syntax of ISO 8601: the parser of Python 3.11 accepts
  \<^verbatim>\<open>2025-01-01!10:00:00\<close> and rejects the ordinal date \<^verbatim>\<open>2025-001\<close>.
\<close>

definition parser_rejects :: "server_env \<Rightarrow> string option \<Rightarrow> bool" where
  "parser_rejects e d =
     (case d of None \<Rightarrow> False | Some s \<Rightarrow> s \<noteq> [] \<and> fromisoformat e s = None)"

definition newest_first :: "('a \<Rightarrow> string) \<Rightarrow> 'a list \<Rightarrow> bool" where
  "newest_first date xs = sorted_wrt (\<lambda>x y. date y \<le> date x) xs"

text \<open>The listed items of a response, without the added URL.\<close>

definition lists :: "response \<Rightarrow> item list \<Rightarrow> bool" where
  "lists resp xs = (resp = (JsonList (map with_url xs), 200))"

text \<open>A collection of \<open>n\<close> documents with different ids.\<close>

definition many_docs :: "nat \<Rightarrow> image_doc list" where
  "many_docs n = map (\<lambda>k. cat_doc\<lparr>doc_id := replicate (Suc k) CHR ''x''\<rparr>) [0..<n]"


section \<open>Properties of the helpers\<close>


lemma startswith_nonempty: "startswith ct ''image/'' \<Longrightarrow> ct \<noteq> []"
  by (auto simp: startswith_def)




section \<open>Upload in the blocking-store variant\<close>



lemma upload_invalid:
  assumes "\<not> valid_upload req"
  shows "snd (fst (upload_image e req w)) = 400 \<and> snd (upload_image e req w) = w"
  using assms startswith_nonempty
  by (auto simp: upload_image_def upload_image_try_def catch_all_def valid_upload_def
        has_file_def has_image_type_def has_uploader_def
      split: option.splits)




section \<open>Validation of an upload\<close>

text \<open>
  C2, as the claim states it, fails in the document-store variant: for a request whose
  file is declared as \<^verbatim>\<open>text/plain\<close> and whose uploader is missing, the first failing
  check of the stated order is the content type, which the blocking-store variant
  answers with 400; the document-store variant answers 422, because the framework
  rejects the missing uploader before the handler checks the content type.
\<close>

theorem upload_validation_order_counterexample:
  "has_file (cat_form\<lparr>files_file := Some (cat_file\<lparr>fs_content_type := Some ''text/plain''\<rparr>),
                      form_uploader := None\<rparr>) \<and>
   \<not> has_image_type
       (cat_form\<lparr>files_file := Some (cat_file\<lparr>fs_content_type := Some ''text/plain''\<rparr>),
                 form_uploader := None\<rparr>) \<and>
   server_upload_image server_env_ok
     (cat_form\<lparr>files_file := Some (cat_file\<lparr>fs_content_type := Some ''text/plain''\<rparr>),
               form_uploader := None\<rparr>) empty_server =
     (Inl RequestValidationError, empty_server)"
  by (simp add: server_upload_image_def has_file_def has_image_type_def cat_form_def
        cat_file_def startswith_def)

text \<open>
  C2, amended. Blocking-store variant: the three checks run in the stated order and the
  first that fails gives the answer: without a file part, or with an empty file name,
  the answer is 400 (\<^verbatim>\<open>No file provided\<close>, \<^verbatim>\<open>No file selected\<close>); with a file but a
  content type that is absent or does not start with \<^verbatim>\<open>image/\<close> it is 400 \<^verbatim>\<open>Only
  image files are allowed\<close>, whatever the uploader; with both in order and the uploader
  absent or empty it is 400 \<^verbatim>\<open>Uploader name is required\<close>; in each case the world is
  returned as it was, so no store is called. Document-store variant: a request without
  file part, or with the uploader absent or empty, is answered with 422 before the
  handler runs; a request that has both and whose content type is absent or does not
  start with \<^verbatim>\<open>image/\<close> is answered with 400 \<^verbatim>\<open>Only image files are allowed\<close>; in
  each case the disk and the collection are as before.
\<close>

theorem upload_validation_order:
  "(files_file req = None \<longrightarrow>
      upload_image e req w = ((error_json ''No file provided'', 400), w)) \<and>
   (files_file req \<noteq> None \<and> \<not> has_file req \<longrightarrow>
      upload_image e req w = ((error_json ''No file selected'', 400), w)) \<and>
   (has_file req \<and> \<not> has_image_type req \<longrightarrow>
      upload_image e req w = ((error_json ''Only image files are allowed'', 400), w)) \<and>
   (has_file req \<and> has_image_type req \<and> \<not> has_uploader req \<longrightarrow>
      upload_image e req w = ((error_json ''Uploader name is required'', 400), w)) \<and>
   (\<not> valid_upload req \<longrightarrow>
      snd (fst (upload_image e req w)) = 400 \<and> snd (upload_image e req w) = w) \<and>
   (files_file req = None \<or> \<not> has_uploader req \<longrightarrow>
      server_upload_image se req st = (Inl RequestValidationError, st)) \<and>
   (files_file req = Some fl \<and> has_uploader req \<and>
    (case fs_content_type fl of None \<Rightarrow> True | Some ct \<Rightarrow> \<not> startswith ct ''image/'') \<longrightarrow>
      server_upload_image se req st =
        (Inl (HTTPException 400 ''Only image files are allowed''), st))"
proof -
  have a: "files_file req = None \<longrightarrow>
      upload_image e req w = ((error_json ''No file provided'', 400), w)"
    by (simp add: upload_image_def upload_image_try_def catch_all_def)
  have b: "files_file req \<noteq> None \<and> \<not> has_file req \<longrightarrow>
      upload_image e req w = ((error_json ''No file selected'', 400), w)"
    by (auto simp: upload_image_def upload_image_try_def catch_all_def has_file_def
             split: option.splits)
  have c: "has_file req \<and> \<not> has_image_type req \<longrightarrow>
      upload_image e req w = ((error_json ''Only image files are allowed'', 400), w)"
    by (auto simp: upload_image_def upload_image_try_def catch_all_def has_file_def
               has_image_type_def
             split: option.splits)
  have d: "has_file req \<and> has_image_type req \<and> \<not> has_uploader req \<longrightarrow>
      upload_image e req w = ((error_json ''Uploader name is required'', 400), w)"
    using startswith_nonempty
    by (auto simp: upload_image_def upload_image_try_def catch_all_def has_file_def
               has_image_type_def has_uploader_def
             split: option.splits)
  have f: "\<not> valid_upload req \<longrightarrow>
      snd (fst (upload_image e req w)) = 400 \<and> snd (upload_image e req w) = w"
    using upload_invalid[of req e w] by blast
  have g: "files_file req = None \<or> \<not> has_uploader req \<longrightarrow>
      server_upload_image se req st = (Inl RequestValidationError, st)"
    by (auto simp: server_upload_image_def has_uploader_def split: option.splits)
  have h: "files_file req = Some fl \<and> has_uploader req \<and>
    (case fs_content_type fl of None \<Rightarrow> True | Some ct \<Rightarrow> \<not> startswith ct ''image/'') \<longrightarrow>
      server_upload_image se req st =
        (Inl (HTTPException 400 ''Only image files are allowed''), st)"
    by (auto simp: server_upload_image_def has_uploader_def Let_def split: option.splits)
  from a b c d f g h show ?thesis by blast
qed

theorem upload_validation_order_witness:
  "upload_image env_ok (cat_form\<lparr>files_file := None, form_uploader := None\<rparr>) empty_world =
     ((error_json ''No file provided'', 400), empty_world) \<and>
   upload_image env_ok (cat_form\<lparr>files_file := Some (cat_file\<lparr>fs_filename := []\<rparr>)\<rparr>)
       empty_world =
     ((error_json ''No file selected'', 400), empty_world) \<and>
   upload_image env_ok
       (cat_form\<lparr>files_file := Some (cat_file\<lparr>fs_content_type := Some ''text/plain''\<rparr>),
                 form_uploader := None\<rparr>) empty_world =
     ((error_json ''Only image files are allowed'', 400), empty_world) \<and>
   upload_image env_ok (cat_form\<lparr>form_uploader := Some []\<rparr>) empty_world =
     ((error_json ''Uploader name is required'', 400), empty_world) \<and>
   snd (upload_image env_ok (cat_form\<lparr>form_uploader := None\<rparr>) empty_world) = empty_world \<and>
   server_upload_image server_env_ok (cat_form\<lparr>form_uploader := Some []\<rparr>) empty_server =
     (Inl RequestValidationError, empty_server) \<and>
   server_upload_image server_env_ok
       (cat_form\<lparr>files_file := Some (cat_file\<lparr>fs_content_type := Some ''text/plain''\<rparr>)\<rparr>)
       empty_server =
     (Inl (HTTPException 400 ''Only image files are allowed''), empty_server)"
proof -
  note t = upload_validation_order
  have "snd (upload_image env_ok (cat_form\<lparr>form_uploader := None\<rparr>) empty_world) = empty_world"
    using t[of "cat_form\<lparr>form_uploader := None\<rparr>" env_ok empty_world]
    by (simp add: valid_upload_def has_uploader_def)
  moreover
  have "upload_image env_ok (cat_form\<lparr>files_file := None, form_uploader := None\<rparr>)
          empty_world = ((error_json ''No file provided'', 400), empty_world)"
    using t[of "cat_form\<lparr>files_file := None, form_uploader := None\<rparr>" env_ok empty_world]
    by simp
  moreover
  have "upload_image env_ok (cat_form\<lparr>files_file := Some (cat_file\<lparr>fs_filename := []\<rparr>)\<rparr>)
          empty_world = ((error_json ''No file selected'', 400), empty_world)"
    using t[of "cat_form\<lparr>files_file := Some (cat_file\<lparr>fs_filename := []\<rparr>)\<rparr>"
               env_ok empty_world]
    by (simp add: has_file_def)
  moreover
  have "upload_image env_ok
          (cat_form\<lparr>files_file := Some (cat_file\<lparr>fs_content_type := Some ''text/plain''\<rparr>),
                    form_uploader := None\<rparr>) empty_world =
        ((error_json ''Only image files are allowed'', 400), empty_world)"
    using t[of "cat_form\<lparr>files_file := Some (cat_file\<lparr>fs_content_type :=
                                                       Some ''text/plain''\<rparr>),
                         form_uploader := None\<rparr>" env_ok empty_world]
    by (simp add: has_file_def has_image_type_def cat_file_def startswith_def)
  moreover
  have "upload_image env_ok (cat_form\<lparr>form_uploader := Some []\<rparr>) empty_world =
        ((error_json ''Uploader name is required'', 400), empty_world)"
    using t[of "cat_form\<lparr>form_uploader := Some []\<rparr>" env_ok empty_world]
    by (simp add: has_file_def has_image_type_def has_uploader_def cat_form_def cat_file_def
          startswith_def)
  moreover
  have "server_upload_image server_env_ok (cat_form\<lparr>form_uploader := Some []\<rparr>) empty_server =
     (Inl RequestValidationError, empty_server)"
    using t[of "cat_form\<lparr>form_uploader := Some []\<rparr>" _ _ server_env_ok empty_server]
    by (simp add: has_uploader_def)
  moreover
  have "server_upload_image server_env_ok
       (cat_form\<lparr>files_file := Some (cat_file\<lparr>fs_content_type := Some ''text/plain''\<rparr>)\<rparr>)
       empty_server =
     (Inl (HTTPException 400 ''Only image files are allowed''), empty_server)"
    using t[of "cat_form\<lparr>files_file := Some (cat_file\<lparr>fs_content_type :=
                                                       Some ''text/plain''\<rparr>)\<rparr>"
               _ _ server_env_ok empty_server
               "cat_file\<lparr>fs_content_type := Some ''text/plain''\<rparr>"]
    by (simp add: has_uploader_def cat_form_def startswith_def)
  ultimately show ?thesis by blast
qed

section \<open>The record a valid upload creates\<close>

lemma split_no_sep: "t \<in> set (split sep s) \<Longrightarrow> sep \<notin> set t"
  by (induction s arbitrary: t) (auto split: if_splits list.splits)

lemma set_strip: "set (strip t) \<subseteq> set t"
  by (auto simp: strip_def dest!: set_dropWhileD)

lemma last_dropWhile: "dropWhile P xs \<noteq> [] \<Longrightarrow> last (dropWhile P xs) = last xs"
  by (induction xs) (auto split: if_splits)

lemma strip_ends:
  assumes "strip s \<noteq> []"
  shows "\<not> py_isspace (hd (strip s)) \<and> \<not> py_isspace (last (strip s))"
proof -
  let ?ys = "dropWhile py_isspace s"
  let ?zs = "dropWhile py_isspace (rev ?ys)"
  from assms have zs: "?zs \<noteq> []" by (simp add: strip_def)
  have ys: "?ys \<noteq> []"
  proof
    assume a: "?ys = []"
    have "?zs = []" unfolding a by simp
    with zs show False by simp
  qed
  have "last (strip s) = hd ?zs" using zs by (simp add: strip_def last_rev)
  moreover have "\<not> py_isspace (hd ?zs)" using zs by (rule hd_dropWhile)
  moreover have "hd (strip s) = last ?zs" using zs by (simp add: strip_def hd_rev)
  moreover have "last ?zs = last (rev ?ys)" using zs by (rule last_dropWhile)
  moreover have "last (rev ?ys) = hd ?ys" using ys by (simp add: last_rev)
  moreover have "\<not> py_isspace (hd ?ys)" using ys by (rule hd_dropWhile)
  ultimately show ?thesis by simp
qed

text \<open>
  Every parsed tag is non-empty, neither starts nor ends with whitespace, and holds no
  comma.
\<close>

lemma spec_tags_tokens:
  assumes "t \<in> set (spec_tags s)"
  shows "t \<noteq> [] \<and> \<not> py_isspace (hd t) \<and> \<not> py_isspace (last t) \<and> CHR '','' \<notin> set t"
proof -
  from assms obtain p where p: "p \<in> set (split CHR '','' s)" "t = strip p" "t \<noteq> []"
    by (auto simp: spec_tags_def)
  with strip_ends[of p] split_no_sep[OF p(1)] set_strip[of p] show ?thesis by auto
qed

lemma spec_tags_example: "spec_tags ''a, b , ,c'' = [''a'', ''b'', ''c'']"
  by code_simp

lemma spec_tags_empty: "spec_tags [] = []"
  by code_simp




section \<open>Lookup, delete and download in the blocking-store variant\<close>

lemma get_item_result:
  "get_item e iid w =
     ((case db_get e of
         Done \<Rightarrow> Inr (find (\<lambda>x. image_id x = iid) (table w))
       | ClientError \<Rightarrow> Inr None
       | Unexpected \<Rightarrow> Inl Exception),
      logged (Db_get iid) (db_get e) w)"
  by (cases "db_get e") (simp_all add: get_item_def Let_def logged_def)

lemma not_found_handlers:
  assumes "fst (get_item e iid w) = Inr None"
  shows "get_image e iid w =
           ((error_json ''Image not found'', 404), logged (Db_get iid) (db_get e) w)"
    and "download_image e iid w =
           ((error_json ''Image not found'', 404), logged (Db_get iid) (db_get e) w)"
    and "delete_image e iid w =
           ((error_json ''Image not found'', 404), logged (Db_get iid) (db_get e) w)"
  using assms
  by (simp_all add: get_item_result get_image_def get_image_try_def download_image_def
        download_image_try_def delete_image_def delete_image_try_def catch_all_def)

lemma read_raises_unexpectedly:
  assumes "db_get e = Unexpected"
  shows "get_image e iid w =
           ((error_json ''Internal server error'', 500), logged (Db_get iid) Unexpected w)"
    and "download_image e iid w =
           ((error_json ''Internal server error'', 500), logged (Db_get iid) Unexpected w)"
    and "delete_image e iid w =
           ((error_json ''Internal server error'', 500), logged (Db_get iid) Unexpected w)"
  using assms
  by (simp_all add: get_item_result get_image_def get_image_try_def download_image_def
        download_image_try_def delete_image_def delete_image_try_def catch_all_def)

text \<open>
  C10, as the claim states it, fails: when the read of the metadata store raises an
  error that is not a \<^verbatim>\<open>ClientError\<close>, the helper does not catch it, and get,
  download and delete answer the generic 500, not 404.
\<close>

theorem read_failure_counterexample:
  "fst (get_image (env_ok\<lparr>db_get := Unexpected\<rparr>) ''id1'' cat_world) =
     (error_json ''Internal server error'', 500) \<and>
   fst (download_image (env_ok\<lparr>db_get := Unexpected\<rparr>) ''id1'' cat_world) =
     (error_json ''Internal server error'', 500) \<and>
   fst (delete_image (env_ok\<lparr>db_get := Unexpected\<rparr>) ''id1'' cat_world) =
     (error_json ''Internal server error'', 500)"
  by (simp add: read_raises_unexpectedly)

text \<open>
  C10, amended. \<^verbatim>\<open>get_item\<close> returns \<^verbatim>\<open>None\<close> when the table has no item of the id
  and also when the read raises a \<^verbatim>\<open>ClientError\<close>, the one error it catches. In both
  cases \<^verbatim>\<open>get_image\<close>, \<^verbatim>\<open>download_image\<close> and \<^verbatim>\<open>delete_image\<close> answer 404
  \<^verbatim>\<open>Image not found\<close>, and the stores are left as they were (only the read is logged):
  during such a read failure the client is told that the image does not exist, whether
  it does or not.
\<close>

theorem read_failure_reported_as_not_found:
  "(db_get e = ClientError \<or>
    (db_get e = Done \<and> find (\<lambda>x. image_id x = iid) (table w) = None) \<longrightarrow>
      fst (get_item e iid w) = Inr None \<and>
      get_image e iid w =
        ((error_json ''Image not found'', 404), logged (Db_get iid) (db_get e) w) \<and>
      download_image e iid w =
        ((error_json ''Image not found'', 404), logged (Db_get iid) (db_get e) w) \<and>
      delete_image e iid w =
        ((error_json ''Image not found'', 404), logged (Db_get iid) (db_get e) w))"
proof -
  have "fst (get_item e iid w) = Inr None"
    if "db_get e = ClientError \<or>
        (db_get e = Done \<and> find (\<lambda>x. image_id x = iid) (table w) = None)"
    using that by (auto simp: get_item_result)
  with not_found_handlers[of e iid w] show ?thesis by blast
qed

theorem read_failure_reported_as_not_found_witness:
  "find (\<lambda>x. image_id x = ''id1'') (table cat_world) = Some cat_item \<and>
   fst (get_image (env_ok\<lparr>db_get := ClientError\<rparr>) ''id1'' cat_world) =
     (error_json ''Image not found'', 404) \<and>
   fst (download_image (env_ok\<lparr>db_get := ClientError\<rparr>) ''id1'' cat_world) =
     (error_json ''Image not found'', 404) \<and>
   fst (delete_image (env_ok\<lparr>db_get := ClientError\<rparr>) ''id1'' cat_world) =
     (error_json ''Image not found'', 404) \<and>
   table (snd (delete_image (env_ok\<lparr>db_get := ClientError\<rparr>) ''id1'' cat_world)) = [cat_item] \<and>
   fst (get_image env_ok ''id2'' cat_world) = (error_json ''Image not found'', 404)"
proof -
  have f: "db_get (env_ok\<lparr>db_get := ClientError\<rparr>) = ClientError \<or>
           (db_get (env_ok\<lparr>db_get := ClientError\<rparr>) = Done \<and>
            find (\<lambda>x. image_id x = ''id1'') (table cat_world) = None)"
    by simp
  have g: "db_get env_ok = ClientError \<or>
           (db_get env_ok = Done \<and> find (\<lambda>x. image_id x = ''id2'') (table cat_world) = None)"
    by (simp add: env_ok_def cat_world_def cat_item_def)
  have h: "find (\<lambda>x. image_id x = ''id1'') (table cat_world) = Some cat_item"
    "table (logged c r cat_world) = [cat_item]" for c r
    by (simp_all add: cat_world_def cat_item_def logged_def)
  from read_failure_reported_as_not_found[rule_format, OF f]
       read_failure_reported_as_not_found[rule_format, OF g] h
  show ?thesis by simp
qed












section \<open>Download\<close>

lemma download_found:
  assumes "db_get e = Done" "find (\<lambda>x. image_id x = iid) (table w) = Some it"
  shows "fst (download_image e iid w) =
          (case s3_download e of
             Done \<Rightarrow>
               (case bucket w (s3_key it) of
                  None \<Rightarrow> (error_json ''Failed to download image from S3'', 500)
                | Some (file_data, content_type) \<Rightarrow>
                    if file_data = []
                    then (error_json ''Failed to download image from S3'', 500)
                    else (SendFile file_data content_type (filename it) False, 200))
           | ClientError \<Rightarrow> (error_json ''Failed to download image from S3'', 500)
           | Unexpected \<Rightarrow> (error_json ''Internal server error'', 500))"
  using assms
  by (cases "s3_download e")
     (auto simp: download_image_def download_image_try_def catch_all_def get_item_result
        download_from_s3_def logged_def Let_def split: option.splits)

text \<open>
  In the blocking-store variant an object of no bytes is answered like a failed read.
\<close>

lemma download_of_empty_object:
  assumes "db_get e = Done" "find (\<lambda>x. image_id x = iid) (table w) = Some it"
    and "s3_download e = Done" "bucket w (s3_key it) = Some ([], ct)"
  shows "fst (download_image e iid w) =
           (error_json ''Failed to download image from S3'', 500)"
  using download_found[OF assms(1,2)] assms(3,4) by simp

text \<open>
  C7, as the claim states it, fails in the document-store variant: a record whose file
  is missing from the disk is answered with 404, not with a server error.
\<close>

theorem download_missing_file_counterexample:
  "find_one ''id1'' (images (cat_server\<lparr>disk := Map.empty\<rparr>)) = Some cat_doc \<and>
   disk (cat_server\<lparr>disk := Map.empty\<rparr>) (doc_file_path cat_doc) = None \<and>
   server_download_image server_env_ok ''id1'' (cat_server\<lparr>disk := Map.empty\<rparr>) =
     Inl (HTTPException 404 ''Image file not found on disk'')"
  by (simp add: server_download_image_def cat_server_def cat_doc_def find_one_def
        server_env_ok_def)

text \<open>
  C7, amended. Blocking-store variant: without a record the answer is 404; with a
  record, a blob read that fails with a \<^verbatim>\<open>ClientError\<close> or finds no object under the
  record's key is answered with 500 \<^verbatim>\<open>Failed to download image from S3\<close>; stored
  bytes that are not empty are sent with the content type stored with the object, the
  record's file name as download name, and not as an attachment. Document-store
  variant: without a document the answer is 404; with a document whose file is missing
  it is 404 \<^verbatim>\<open>Image file not found on disk\<close>; otherwise the bytes of the file are sent
  under the document's file name, with the media type guessed from the path, or
  \<^verbatim>\<open>application/octet-stream\<close> when there is no guess.
\<close>

theorem download_results:
  "(db_get e = Done \<and> find (\<lambda>x. image_id x = iid) (table w) = None \<longrightarrow>
      fst (download_image e iid w) = (error_json ''Image not found'', 404)) \<and>
   (db_get e = Done \<and> find (\<lambda>x. image_id x = iid) (table w) = Some it \<and>
    (s3_download e = ClientError \<or> (s3_download e = Done \<and> bucket w (s3_key it) = None)) \<longrightarrow>
      fst (download_image e iid w) = (error_json ''Failed to download image from S3'', 500)) \<and>
   (db_get e = Done \<and> find (\<lambda>x. image_id x = iid) (table w) = Some it \<and>
    s3_download e = Done \<and> bucket w (s3_key it) = Some (file_data, ct) \<and> file_data \<noteq> [] \<longrightarrow>
      fst (download_image e iid w) = (SendFile file_data ct (filename it) False, 200)) \<and>
   (\<not> find_raises se \<and> find_one iid (images st) = None \<longrightarrow>
      server_download_image se iid st = Inl (HTTPException 404 ''Image not found'')) \<and>
   (\<not> find_raises se \<and> find_one iid (images st) = Some img \<and>
    disk st (doc_file_path img) = None \<longrightarrow>
      server_download_image se iid st =
        Inl (HTTPException 404 ''Image file not found on disk'')) \<and>
   (\<not> find_raises se \<and> find_one iid (images st) = Some img \<and>
    disk st (doc_file_path img) = Some content \<longrightarrow>
      server_download_image se iid st =
        Inr (FileResponse content
               (case guess_type se (doc_file_path img) of
                  None \<Rightarrow> ''application/octet-stream''
                | Some t \<Rightarrow> if t = [] then ''application/octet-stream'' else t)
               (doc_filename img)))"
proof -
  have a: "db_get e = Done \<and> find (\<lambda>x. image_id x = iid) (table w) = None \<longrightarrow>
      fst (download_image e iid w) = (error_json ''Image not found'', 404)"
    using not_found_handlers(2)[of e iid w] by (simp add: get_item_result)
  have b: "db_get e = Done \<and> find (\<lambda>x. image_id x = iid) (table w) = Some it \<and>
    (s3_download e = ClientError \<or> (s3_download e = Done \<and> bucket w (s3_key it) = None)) \<longrightarrow>
      fst (download_image e iid w) = (error_json ''Failed to download image from S3'', 500)"
    using download_found[of e iid w it] by auto
  have c: "db_get e = Done \<and> find (\<lambda>x. image_id x = iid) (table w) = Some it \<and>
    s3_download e = Done \<and> bucket w (s3_key it) = Some (file_data, ct) \<and> file_data \<noteq> [] \<longrightarrow>
      fst (download_image e iid w) = (SendFile file_data ct (filename it) False, 200)"
    using download_found[of e iid w it] by auto
  have d: "(\<not> find_raises se \<and> find_one iid (images st) = None \<longrightarrow>
      server_download_image se iid st = Inl (HTTPException 404 ''Image not found'')) \<and>
   (\<not> find_raises se \<and> find_one iid (images st) = Some img \<and>
    disk st (doc_file_path img) = None \<longrightarrow>
      server_download_image se iid st =
        Inl (HTTPException 404 ''Image file not found on disk'')) \<and>
   (\<not> find_raises se \<and> find_one iid (images st) = Some img \<and>
    disk st (doc_file_path img) = Some content \<longrightarrow>
      server_download_image se iid st =
        Inr (FileResponse content
               (case guess_type se (doc_file_path img) of
                  None \<Rightarrow> ''application/octet-stream''
                | Some t \<Rightarrow> if t = [] then ''application/octet-stream'' else t)
               (doc_filename img)))"
    by (simp add: server_download_image_def Let_def)
  from a b c d show ?thesis by blast
qed

theorem download_results_witness:
  "fst (download_image env_ok ''id2'' cat_world) = (error_json ''Image not found'', 404) \<and>
   fst (download_image (env_ok\<lparr>s3_download := ClientError\<rparr>) ''id1'' cat_world) =
     (error_json ''Failed to download image from S3'', 500) \<and>
   fst (download_image env_ok ''id1'' (cat_world\<lparr>bucket := Map.empty\<rparr>)) =
     (error_json ''Failed to download image from S3'', 500) \<and>
   fst (download_image env_ok ''id1'' cat_world) =
     (SendFile ''abc'' ''image/png'' ''cat.PNG'' False, 200) \<and>
   server_download_image server_env_ok ''id2'' cat_server =
     Inl (HTTPException 404 ''Image not found'') \<and>
   server_download_image server_env_ok ''id1'' (cat_server\<lparr>disk := Map.empty\<rparr>) =
     Inl (HTTPException 404 ''Image file not found on disk'') \<and>
   server_download_image server_env_ok ''id1'' cat_server =
     Inr (FileResponse ''abc'' ''image/png'' ''cat.PNG'')"
proof -
  note t = download_results
  have w: "find (\<lambda>x. image_id x = ''id1'') (table cat_world) = Some cat_item"
    "find (\<lambda>x. image_id x = ''id2'') (table cat_world) = None"
    "find (\<lambda>x. image_id x = ''id1'') (table (cat_world\<lparr>bucket := Map.empty\<rparr>)) = Some cat_item"
    "s3_key cat_item = ''id1.png''" "filename cat_item = ''cat.PNG''"
    "bucket cat_world ''id1.png'' = Some (''abc'', ''image/png'')"
    by (simp_all add: cat_world_def cat_item_def)
  have e: "db_get env_ok = Done" "s3_download env_ok = Done"
    by (simp_all add: env_ok_def)
  have s: "find_one ''id1'' (images cat_server) = Some cat_doc"
    "find_one ''id2'' (images cat_server) = None"
    "doc_file_path cat_doc = ''uploads/f1.PNG''" "doc_filename cat_doc = ''cat.PNG''"
    "disk cat_server ''uploads/f1.PNG'' = Some ''abc''"
    "\<not> find_raises server_env_ok"
    by (simp_all add: cat_server_def cat_doc_def find_one_def server_env_ok_def)
  have "lower (path_suffix ''uploads/f1.PNG'') = ''.png''"
    by code_simp
  then have g: "guess_type server_env_ok ''uploads/f1.PNG'' = Some ''image/png''"
    by (simp add: server_env_ok_def)
  have "fst (download_image env_ok ''id2'' cat_world) = (error_json ''Image not found'', 404)"
    using t[THEN conjunct1, of env_ok "''id2''" cat_world] w e by simp
  moreover
  have "fst (download_image (env_ok\<lparr>s3_download := ClientError\<rparr>) ''id1'' cat_world) =
     (error_json ''Failed to download image from S3'', 500)"
    using t[THEN conjunct2, THEN conjunct1,
            of "env_ok\<lparr>s3_download := ClientError\<rparr>" "''id1''" cat_world cat_item] w e
    by simp
  moreover
  have "fst (download_image env_ok ''id1'' (cat_world\<lparr>bucket := Map.empty\<rparr>)) =
     (error_json ''Failed to download image from S3'', 500)"
    using t[THEN conjunct2, THEN conjunct1,
            of env_ok "''id1''" "cat_world\<lparr>bucket := Map.empty\<rparr>" cat_item] w e
    by simp
  moreover
  have "fst (download_image env_ok ''id1'' cat_world) =
     (SendFile ''abc'' ''image/png'' ''cat.PNG'' False, 200)"
    using t[THEN conjunct2, THEN conjunct2, THEN conjunct1,
            of env_ok "''id1''" cat_world cat_item "''abc''" "''image/png''"] w e
    by simp
  moreover
  have "server_download_image server_env_ok ''id2'' cat_server =
     Inl (HTTPException 404 ''Image not found'')"
    using t[THEN conjunct2, THEN conjunct2, THEN conjunct2, THEN conjunct1,
            of server_env_ok "''id2''" cat_server] s
    by simp
  moreover
  have "server_download_image server_env_ok ''id1'' (cat_server\<lparr>disk := Map.empty\<rparr>) =
     Inl (HTTPException 404 ''Image file not found on disk'')"
    using t[THEN conjunct2, THEN conjunct2, THEN conjunct2, THEN conjunct2, THEN conjunct1,
            of server_env_ok "''id1''" "cat_server\<lparr>disk := Map.empty\<rparr>" cat_doc] s
    by simp
  moreover
  have "server_download_image server_env_ok ''id1'' cat_server =
     Inr (FileResponse ''abc'' ''image/png'' ''cat.PNG'')"
    using t[THEN conjunct2, THEN conjunct2, THEN conjunct2, THEN conjunct2, THEN conjunct2,
            of server_env_ok "''id1''" cat_server cat_doc "''abc''"] s g
    by simp
  ultimately show ?thesis by simp
qed

section \<open>Listing\<close>

lemma search_tags_spec: "search_tags_of tgs = spec_tags tgs"
  by (simp add: search_tags_of_def spec_tags_def filter_map comp_def)

lemma list_ex_common: "list_ex (\<lambda>t. t \<in> set ys) xs \<longleftrightarrow> set ys \<inter> set xs \<noteq> {}"
  by (auto simp: list_ex_iff)

text \<open>The filter loop keeps exactly the items that satisfy the supplied filters.\<close>

lemma filtered_items_filter: "filtered_items a items = filter (satisfies a) items"
proof (induction items)
  case Nil
  then show ?case by simp
next
  case (Cons it items)
  have "satisfies a it \<longleftrightarrow>
        \<not> (case arg_date_from a of None \<Rightarrow> False
           | Some date_from \<Rightarrow> date_from \<noteq> [] \<and> upload_date it < date_from) \<and>
        \<not> (case arg_date_to a of None \<Rightarrow> False
           | Some date_to \<Rightarrow> date_to \<noteq> [] \<and> upload_date it > date_to) \<and>
        \<not> (case arg_uploader a of None \<Rightarrow> False | Some u \<Rightarrow> u \<noteq> [] \<and> uploader it \<noteq> u) \<and>
        \<not> (case arg_tags a of None \<Rightarrow> False
           | Some tgs \<Rightarrow> tgs \<noteq> [] \<and>
               \<not> list_ex (\<lambda>tag. tag \<in> set (tags it)) (search_tags_of tgs))"
    by (auto simp: satisfies_def search_tags_spec list_ex_common not_less
             split: option.splits)
  with Cons.IH show ?case by simp
qed

lemma mset_sort_reverse: "mset (sort_reverse f xs) = mset xs"
  by (simp add: sort_reverse_def)

lemma newest_first_sort_reverse: "newest_first f (sort_reverse f xs)"
proof -
  have "sorted (map f (sort_key f (rev xs)))"
    by (rule sorted_sort_key)
  then have "sorted_wrt (\<lambda>x y. f x \<le> f y) (sort_key f (rev xs))"
    by (simp add: sorted_map)
  then show ?thesis
    by (simp add: newest_first_def sort_reverse_def sorted_wrt_rev)
qed

text \<open>Items of the same date keep the order in which the scan returned them.\<close>

lemma sort_reverse_stable:
  "filter (\<lambda>x. f x = k) (sort_reverse f xs) = filter (\<lambda>x. f x = k) xs"
  by (simp add: sort_reverse_def rev_filter[symmetric] sort_key_stable)

lemma list_images_scanned:
  assumes "db_scan e = Done"
  shows "list_images e a w =
          ((JsonList (map with_url (sort_reverse upload_date (filter (satisfies a) (table w)))),
            200), logged Db_scan Done w)"
  using assms
  by (simp add: list_images_def list_images_try_def catch_all_def scan_items_def Let_def
        logged_def filtered_items_filter)

lemma item_dict_key: "item_dict it ''s3_key'' = Some (Str (s3_key it))"
  by (cases "width it"; cases "height it"; cases "thumbnail_key it"; cases "processed it")
     (simp_all add: item_dict_def)

lemma with_url_keys:
  "with_url it ''url'' = Some (Str (image_url (image_id it))) \<and>
   with_url it ''s3_key'' = Some (Str (s3_key it))"
  by (simp add: with_url_def item_dict_key)

lemma matches_built_query:
  assumes "\<not> parser_rejects se (arg_date_from a)" "\<not> parser_rejects se (arg_date_to a)"
  shows "\<exists>q. server_list_images se a st =
               (if find_raises se then Inl Unhandled
                else Inr (map to_response (find_sorted q 1000 (images st)))) \<and>
             (\<forall>d. matches q d = server_satisfies se a d)"
proof -
  obtain gte where gte:
    "(case arg_date_from a of
        None \<Rightarrow> Inr None
      | Some s \<Rightarrow>
          if s = [] then Inr None
          else (case fromisoformat se s of
                  None \<Rightarrow> Inl (HTTPException 400 ''Invalid date_from format. Use ISO format.'')
                | Some parsed \<Rightarrow> Inr (Some parsed))) = Inr gte"
    "gte = (case arg_date_from a of None \<Rightarrow> None
            | Some s \<Rightarrow> if s = [] then None else fromisoformat se s)"
    using assms(1) by (auto simp: parser_rejects_def split: option.splits)
  obtain lte where lte:
    "(case arg_date_to a of
        None \<Rightarrow> Inr None
      | Some s \<Rightarrow>
          if s = [] then Inr None
          else (case fromisoformat se s of
                  None \<Rightarrow> Inl (HTTPException 400 ''Invalid date_to format. Use ISO format.'')
                | Some parsed \<Rightarrow> Inr (Some parsed))) = Inr lte"
    "lte = (case arg_date_to a of None \<Rightarrow> None
            | Some s \<Rightarrow> if s = [] then None else fromisoformat se s)"
    using assms(2) by (auto simp: parser_rejects_def split: option.splits)
  let ?q = "\<lparr>q_upload_date = (if truthy (arg_date_from a) \<or> truthy (arg_date_to a)
                               then Some (gte, lte) else None),
             q_uploader = (if truthy (arg_uploader a) then arg_uploader a else None),
             q_tags_in = (case arg_tags a of
                            None \<Rightarrow> None
                          | Some tgs \<Rightarrow> if tgs = [] then None else Some (search_tags_of tgs))\<rparr>"
  have run: "server_list_images se a st =
               (if find_raises se then Inl Unhandled
                else Inr (map to_response (find_sorted ?q 1000 (images st))))"
    unfolding server_list_images_def Let_def gte(1) lte(1) by simp
  have "matches ?q d = server_satisfies se a d" for d
    using assms
    by (auto simp: matches_def server_satisfies_def gte(2) lte(2) truthy_def parser_rejects_def
          search_tags_spec list_ex_common Int_commute
        split: option.splits)
  with run show ?thesis by blast
qed

lemma server_satisfies_no_filters: "server_satisfies se no_filters d"
  by (simp add: server_satisfies_def no_filters_def)

lemma length_many_docs: "length (many_docs n) = n"
  by (simp add: many_docs_def)

lemma distinct_many_docs: "distinct (map doc_id (many_docs n))"
proof -
  have "inj_on (\<lambda>k. replicate (Suc k) CHR ''x'') (set [0..<n])"
    by (rule inj_onI) (metis length_replicate nat.inject)
  then show ?thesis
    by (simp add: many_docs_def comp_def distinct_map)
qed

text \<open>
  C4, as the claim states it, fails in the document-store variant: of 1001 stored
  documents with different ids, all of which satisfy the (absent) filters, the list
  operation returns 1000.
\<close>

theorem list_cap_counterexample:
  "\<not> isl (server_list_images server_env_ok no_filters
            \<lparr>disk = Map.empty, images = many_docs 1001\<rparr>) \<and>
   length (projr (server_list_images server_env_ok no_filters
                    \<lparr>disk = Map.empty, images = many_docs 1001\<rparr>)) = 1000 \<and>
   length (filter (server_satisfies server_env_ok no_filters) (many_docs 1001)) = 1001 \<and>
   distinct (map doc_id (many_docs 1001))"
proof -
  let ?st = "\<lparr>disk = Map.empty, images = many_docs 1001\<rparr>"
  have nm: "\<not> parser_rejects server_env_ok (arg_date_from no_filters)"
    "\<not> parser_rejects server_env_ok (arg_date_to no_filters)"
    by (simp_all add: parser_rejects_def no_filters_def)
  from matches_built_query[OF nm, of ?st] obtain q where
    q: "server_list_images server_env_ok no_filters ?st =
          Inr (map to_response (find_sorted q 1000 (many_docs 1001)))"
       "\<And>d. matches q d"
    by (auto simp: server_env_ok_def server_satisfies_no_filters)
  have "length (find_sorted q 1000 (many_docs 1001)) = 1000"
    by (simp add: find_sorted_def sort_reverse_def q(2) length_many_docs)
  with q(1) show ?thesis
    by (simp add: server_satisfies_no_filters length_many_docs distinct_many_docs)
qed

text \<open>
  C4, amended. A filter is supplied when its parameter is present and not empty. In the
  blocking-store variant, when the scan succeeds, the list operation answers 200 with
  exactly the stored records that satisfy all supplied filters (inclusive bounds on the
  date string, equal uploader, a tag in common with the tokens of the tags parameter),
  newest first, each with the URL made from its id; an empty table gives the empty list.
  In the document-store variant, when the supplied dates parse, the operation returns
  the first 1000 of the records that satisfy the filters, newest first, each with the
  URL made from its id.
\<close>

theorem list_results:
  "(db_scan e = Done \<longrightarrow>
      (\<exists>xs. lists (fst (list_images e a w)) xs \<and>
            mset xs = mset (filter (satisfies a) (table w)) \<and>
            newest_first upload_date xs)) \<and>
   (db_scan e = Done \<and> table w = [] \<longrightarrow> fst (list_images e a w) = (JsonList [], 200)) \<and>
   with_url it ''url'' = Some (Str (image_url (image_id it))) \<and>
   (\<not> find_raises se \<and> \<not> parser_rejects se (arg_date_from a) \<and> \<not> parser_rejects se (arg_date_to a) \<longrightarrow>
      (\<exists>ds. server_list_images se a st = Inr (map to_response (take 1000 ds)) \<and>
            mset ds = mset (filter (server_satisfies se a) (images st)) \<and>
            newest_first doc_upload_date ds)) \<and>
   r_url (to_response d) = image_url (doc_id d)"
proof -
  have a: "\<exists>xs. lists (fst (list_images e a w)) xs \<and>
            mset xs = mset (filter (satisfies a) (table w)) \<and>
            newest_first upload_date xs" if "db_scan e = Done"
    using list_images_scanned[OF that, of a w]
      mset_sort_reverse[of upload_date "filter (satisfies a) (table w)"]
      newest_first_sort_reverse[of upload_date "filter (satisfies a) (table w)"]
    unfolding lists_def by (intro exI[of _ "sort_reverse upload_date (filter (satisfies a) (table w))"]) simp
  have b: "fst (list_images e a w) = (JsonList [], 200)" if "db_scan e = Done" "table w = []"
    using list_images_scanned[OF that(1), of a w] that(2)
    by (simp add: sort_reverse_def)
  have c: "\<exists>ds. server_list_images se a st = Inr (map to_response (take 1000 ds)) \<and>
            mset ds = mset (filter (server_satisfies se a) (images st)) \<and>
            newest_first doc_upload_date ds"
    if h: "\<not> find_raises se" "\<not> parser_rejects se (arg_date_from a)"
      "\<not> parser_rejects se (arg_date_to a)"
  proof -
    from matches_built_query[OF h(2,3), of st] h(1) obtain q where
      q: "server_list_images se a st = Inr (map to_response (find_sorted q 1000 (images st)))"
         "\<And>d. matches q d = server_satisfies se a d"
      by auto
    from q(2) have eq: "filter (matches q) (images st) = filter (server_satisfies se a) (images st)"
      by (intro filter_cong) simp_all
    let ?ds = "sort_reverse doc_upload_date (filter (server_satisfies se a) (images st))"
    have "server_list_images se a st = Inr (map to_response (take 1000 ?ds))"
      using q(1) by (simp add: find_sorted_def eq)
    moreover have "mset ?ds = mset (filter (server_satisfies se a) (images st))"
      by (rule mset_sort_reverse)
    moreover have "newest_first doc_upload_date ?ds"
      by (rule newest_first_sort_reverse)
    ultimately show ?thesis by blast
  qed
  from a b c with_url_keys[of it] show ?thesis
    by (simp add: to_response_def)
qed

theorem list_results_witness:
  "fst (list_images env_ok (no_filters\<lparr>arg_uploader := Some ''U''\<rparr>)
          (cat_world\<lparr>table := [cat_item\<lparr>image_id := ''id2'', uploader := ''V''\<rparr>, cat_item]\<rparr>)) =
     (JsonList [with_url cat_item], 200) \<and>
   server_list_images server_env_ok (no_filters\<lparr>arg_tags := Some ''z, b''\<rparr>)
     (cat_server\<lparr>images := [cat_doc\<lparr>doc_id := ''id2'', doc_tags := [''q'']\<rparr>, cat_doc]\<rparr>) =
     Inr [to_response cat_doc] \<and>
   fst (list_images env_ok no_filters empty_world) = (JsonList [], 200)"
proof -
  let ?a = "no_filters\<lparr>arg_uploader := Some ''U''\<rparr>"
  let ?w = "cat_world\<lparr>table := [cat_item\<lparr>image_id := ''id2'', uploader := ''V''\<rparr>, cat_item]\<rparr>"
  let ?b = "no_filters\<lparr>arg_tags := Some ''z, b''\<rparr>"
  let ?st = "cat_server\<lparr>images := [cat_doc\<lparr>doc_id := ''id2'', doc_tags := [''q'']\<rparr>, cat_doc]\<rparr>"
  note t = list_results
  have e: "db_scan env_ok = Done" by (simp add: env_ok_def)
  have f: "filter (satisfies ?a) (table ?w) = [cat_item]"
    by (simp add: satisfies_def no_filters_def cat_item_def)
  from t[THEN conjunct1, rule_format, OF e, of ?a ?w] obtain xs where
    xs: "lists (fst (list_images env_ok ?a ?w)) xs" "mset xs = mset [cat_item]"
    unfolding f by blast
  from xs(2) have "xs = [cat_item]"
    by (metis mset_single_iff_right mset.simps(1,2) add_mset_eq_single)
  with xs(1) have app: "fst (list_images env_ok ?a ?w) = (JsonList [with_url cat_item], 200)"
    by (simp add: lists_def)
  have tg: "spec_tags ''z, b'' = [''z'', ''b'']" by code_simp
  have s: "\<not> find_raises server_env_ok \<and> \<not> parser_rejects server_env_ok (arg_date_from ?b) \<and>
           \<not> parser_rejects server_env_ok (arg_date_to ?b)"
    by (simp add: server_env_ok_def parser_rejects_def no_filters_def)
  have g: "filter (server_satisfies server_env_ok ?b) (images ?st) = [cat_doc]"
    by (simp add: server_satisfies_def no_filters_def cat_doc_def tg)
  from t[THEN conjunct2, THEN conjunct2, THEN conjunct2, THEN conjunct1, rule_format, OF s,
         of ?st]
  obtain ds where
    ds: "server_list_images server_env_ok ?b ?st = Inr (map to_response (take 1000 ds))"
      "mset ds = mset [cat_doc]"
    unfolding g by blast
  from ds(2) have "ds = [cat_doc]"
    by (metis mset_single_iff_right mset.simps(1,2) add_mset_eq_single)
  with ds(1) have srv: "server_list_images server_env_ok ?b ?st = Inr [to_response cat_doc]"
    by simp
  have "db_scan env_ok = Done \<and> table empty_world = []"
    by (simp add: env_ok_def empty_world_def)
  from t[THEN conjunct2, THEN conjunct1, rule_format, OF this]
  have "fst (list_images env_ok no_filters empty_world) = (JsonList [], 200)" .
  with app srv show ?thesis by simp
qed

section \<open>Date filters that the parser rejects\<close>

text \<open>
  C5, as the claim states it, fails in the blocking-store variant, which never parses a
  date: the parameter \<^verbatim>\<open>date_from=!\<close> is compared as a string, and the answer is 200
  with the stored record.
\<close>

theorem list_malformed_date_counterexample:
  "fst (list_images env_ok (no_filters\<lparr>arg_date_from := Some ''!''\<rparr>) cat_world) =
     (JsonList [with_url cat_item], 200)"
proof -
  have "filter (satisfies (no_filters\<lparr>arg_date_from := Some ''!''\<rparr>)) (table cat_world) =
          [cat_item]"
    by (simp add: satisfies_def no_filters_def cat_world_def cat_item_def)
  then show ?thesis
    by (simp add: list_images_scanned env_ok_def sort_reverse_def)
qed

text \<open>
  C5, amended. In the document-store variant a list request is answered with an
  \<^verbatim>\<open>HTTPException\<close> exactly when a date filter is supplied, not empty, and rejected by
  \<^verbatim>\<open>datetime.fromisoformat\<close> (which is the code's test, and not the same as being
  well-formed ISO 8601): a rejected \<^verbatim>\<open>date_from\<close> gives 400 \<^verbatim>\<open>Invalid date_from
  format. Use ISO format.\<close>, whatever \<^verbatim>\<open>date_to\<close> is; with \<^verbatim>\<open>date_from\<close> in order, a
  rejected \<^verbatim>\<open>date_to\<close> gives 400 \<^verbatim>\<open>Invalid date_to format. Use ISO format.\<close>; no
  record is returned, and the collection is not queried (the answer is the same when the
  query would raise). With no rejected date there is no such answer. The blocking-store
  variant does not validate dates: whenever the scan does not raise unexpectedly its
  answer has status 200.
\<close>

theorem rejected_date_answered_400:
  "(parser_rejects se (arg_date_from a) \<longrightarrow>
      server_list_images se a st =
        Inl (HTTPException 400 ''Invalid date_from format. Use ISO format.'')) \<and>
   (\<not> parser_rejects se (arg_date_from a) \<and> parser_rejects se (arg_date_to a) \<longrightarrow>
      server_list_images se a st =
        Inl (HTTPException 400 ''Invalid date_to format. Use ISO format.'')) \<and>
   (\<not> parser_rejects se (arg_date_from a) \<and> \<not> parser_rejects se (arg_date_to a) \<longrightarrow>
      (\<forall>code msg. server_list_images se a st \<noteq> Inl (HTTPException code msg))) \<and>
   (db_scan e \<noteq> Unexpected \<longrightarrow> snd (fst (list_images e a w)) = 200)"
proof -
  have a: "server_list_images se a st =
        Inl (HTTPException 400 ''Invalid date_from format. Use ISO format.'')"
    if "parser_rejects se (arg_date_from a)"
    using that
    by (auto simp: parser_rejects_def server_list_images_def Let_def truthy_def
             split: option.splits)
  have b: "server_list_images se a st =
        Inl (HTTPException 400 ''Invalid date_to format. Use ISO format.'')"
    if "\<not> parser_rejects se (arg_date_from a)" "parser_rejects se (arg_date_to a)"
    using that
    by (auto simp: parser_rejects_def server_list_images_def Let_def truthy_def
             split: option.splits)
  have c: "server_list_images se a st \<noteq> Inl (HTTPException code msg)"
    if "\<not> parser_rejects se (arg_date_from a)" "\<not> parser_rejects se (arg_date_to a)"
    for code msg
    using matches_built_query[OF that, of st] by (auto split: if_splits)
  have d: "snd (fst (list_images e a w)) = 200" if "db_scan e \<noteq> Unexpected"
    using that
    by (cases "db_scan e")
       (simp_all add: list_images_def list_images_try_def catch_all_def scan_items_def Let_def)
  from a b c d show ?thesis by blast
qed

theorem rejected_date_answered_400_witness:
  "server_list_images (server_env_ok\<lparr>find_raises := True\<rparr>)
     (no_filters\<lparr>arg_date_from := Some ''!'', arg_date_to := Some ''?''\<rparr>) cat_server =
     Inl (HTTPException 400 ''Invalid date_from format. Use ISO format.'') \<and>
   server_list_images server_env_ok
     (no_filters\<lparr>arg_date_from := Some ''2025-01-01'', arg_date_to := Some ''tomorrow''\<rparr>)
     cat_server =
     Inl (HTTPException 400 ''Invalid date_to format. Use ISO format.'') \<and>
   server_list_images server_env_ok
     (no_filters\<lparr>arg_date_from := Some ''2025-01-01'', arg_date_to := Some []\<rparr>) cat_server \<noteq>
     Inl (HTTPException 400 ''Invalid date_to format. Use ISO format.'') \<and>
   snd (fst (list_images env_ok (no_filters\<lparr>arg_date_from := Some ''!''\<rparr>) cat_world)) = 200"
proof -
  note t = rejected_date_answered_400
  let ?a = "no_filters\<lparr>arg_date_from := Some ''!'', arg_date_to := Some ''?''\<rparr>"
  let ?b = "no_filters\<lparr>arg_date_from := Some ''2025-01-01'', arg_date_to := Some ''tomorrow''\<rparr>"
  let ?c = "no_filters\<lparr>arg_date_from := Some ''2025-01-01'', arg_date_to := Some []\<rparr>"
  let ?d = "no_filters\<lparr>arg_date_from := Some ''!''\<rparr>"
  have m: "parser_rejects (server_env_ok\<lparr>find_raises := True\<rparr>) (arg_date_from ?a)"
    "\<not> parser_rejects server_env_ok (arg_date_from ?b) \<and>
     parser_rejects server_env_ok (arg_date_to ?b)"
    "\<not> parser_rejects server_env_ok (arg_date_from ?c) \<and>
     \<not> parser_rejects server_env_ok (arg_date_to ?c)"
    "db_scan env_ok \<noteq> Unexpected"
    by (simp_all add: parser_rejects_def server_env_ok_def env_ok_def)
  from t[THEN conjunct1, rule_format, OF m(1), of cat_server]
       t[THEN conjunct2, THEN conjunct1, rule_format, OF m(2), of cat_server]
       t[THEN conjunct2, THEN conjunct2, THEN conjunct1, rule_format, OF m(3), of cat_server]
       t[THEN conjunct2, THEN conjunct2, THEN conjunct2, rule_format, OF m(4), of ?d cat_world]
  show ?thesis by simp
qed

section \<open>The storage key in responses\<close>

lemma get_image_found:
  assumes "db_get e = Done" "find (\<lambda>x. image_id x = iid) (table w) = Some it"
  shows "fst (get_image e iid w) = (Json ((item_dict it)(''url'' \<mapsto> Str (image_url iid))), 200)"
  using assms
  by (simp add: get_image_def get_image_try_def catch_all_def get_item_result)

text \<open>
  The responses of the document-store variant are made field by field, and the path of
  the file is not one of the fields.
\<close>

lemma response_json_fields:
  "dom (response_json r) =
     {''id'', ''filename'', ''file_size'', ''file_type'', ''uploader'', ''tags'',
      ''description'', ''upload_date'', ''url''}"
  by (auto simp: response_json_def dom_def)

text \<open>
  C9. Where the claim says that the storage key does not appear, the blocking-store
  variant sends it: the answer to get-metadata for a stored item is the item's whole
  dictionary with the URL added, and its entry \<^verbatim>\<open>s3_key\<close> is the item's storage key;
  the answer to list holds, for each record that passes the filters, the same
  dictionary with the same entry.
\<close>

theorem stored_item_sent_with_storage_key:
  "(db_get e = Done \<and> find (\<lambda>x. image_id x = iid) (table w) = Some it \<longrightarrow>
      fst (get_image e iid w) =
        (Json ((item_dict it)(''url'' \<mapsto> Str (image_url iid))), 200) \<and>
      ((item_dict it)(''url'' \<mapsto> Str (image_url iid))) ''s3_key'' = Some (Str (s3_key it))) \<and>
   (db_scan e = Done \<longrightarrow>
      (\<exists>xs. lists (fst (list_images e a w)) xs \<and>
            mset xs = mset (filter (satisfies a) (table w)))) \<and>
   with_url it ''s3_key'' = Some (Str (s3_key it))"
proof -
  have a: "fst (get_image e iid w) =
        (Json ((item_dict it)(''url'' \<mapsto> Str (image_url iid))), 200) \<and>
      ((item_dict it)(''url'' \<mapsto> Str (image_url iid))) ''s3_key'' = Some (Str (s3_key it))"
    if "db_get e = Done" "find (\<lambda>x. image_id x = iid) (table w) = Some it"
    using get_image_found[OF that] by (simp add: item_dict_key)
  have b: "\<exists>xs. lists (fst (list_images e a w)) xs \<and>
            mset xs = mset (filter (satisfies a) (table w))"
    if "db_scan e = Done"
    using list_images_scanned[OF that, of a w]
      mset_sort_reverse[of upload_date "filter (satisfies a) (table w)"]
    unfolding lists_def
    by (intro exI[of _ "sort_reverse upload_date (filter (satisfies a) (table w))"]) simp
  from a b with_url_keys[of it] show ?thesis by blast
qed

theorem stored_item_sent_with_storage_key_witness:
  "fst (get_image env_ok ''id1'' cat_world) =
     (Json ((item_dict cat_item)(''url'' \<mapsto> Str ''/api/images/id1/file'')), 200) \<and>
   ((item_dict cat_item)(''url'' \<mapsto> Str ''/api/images/id1/file'')) ''s3_key'' =
     Some (Str ''id1.png'') \<and>
   fst (list_images env_ok no_filters cat_world) = (JsonList [with_url cat_item], 200) \<and>
   with_url cat_item ''s3_key'' = Some (Str ''id1.png'')"
proof -
  note t = stored_item_sent_with_storage_key
  have g: "db_get env_ok = Done \<and>
           find (\<lambda>x. image_id x = ''id1'') (table cat_world) = Some cat_item"
    "s3_key cat_item = ''id1.png''" "image_url ''id1'' = ''/api/images/id1/file''"
    "db_scan env_ok = Done"
    by (simp_all add: env_ok_def cat_world_def cat_item_def image_url_def)
  have f: "filter (satisfies no_filters) (table cat_world) = [cat_item]"
    by (simp add: satisfies_def no_filters_def cat_world_def)
  from t[THEN conjunct2, THEN conjunct1, rule_format, OF g(4), of no_filters cat_world]
  obtain xs where xs: "lists (fst (list_images env_ok no_filters cat_world)) xs"
    "mset xs = mset [cat_item]"
    unfolding f by blast
  from xs(2) have "xs = [cat_item]"
    by (metis mset_single_iff_right mset.simps(1,2) add_mset_eq_single)
  with xs(1) have l: "fst (list_images env_ok no_filters cat_world) =
                        (JsonList [with_url cat_item], 200)"
    by (simp add: lists_def)
  from t[THEN conjunct1, rule_format, OF g(1)]
       t[THEN conjunct2, THEN conjunct2, of cat_item] l
  show ?thesis by (simp add: g(2,3))
qed

section \<open>Upload, then download\<close>





end
